theory Spec2Isabelle
  imports Main "HOL-Library.Word"
begin

unbundle bit_operations_syntax

section \<open>Python strings\<close>

text \<open>
  A Python \<open>str\<close> is a sequence of Unicode code points, so it is modelled as a list of
  natural numbers (one per code point), not as a list of bytes. \<open>ascii\<close> injects an ASCII
  literal.
\<close>

type_synonym ustr = "nat list"

definition ascii :: "string \<Rightarrow> ustr" where
  "ascii s = map of_char s"

text \<open>
  \<open>str.isspace\<close> on one code point: the code points for which CPython's
  \<open>_PyUnicode_IsWhitespace\<close> answers true. These are the characters which the
  argument-less \<open>str.strip()\<close> removes.
\<close>

definition isspace :: "nat \<Rightarrow> bool" where
  "isspace c \<longleftrightarrow>
     (9 \<le> c \<and> c \<le> 13) \<or> (28 \<le> c \<and> c \<le> 32) \<or> c = 133 \<or> c = 160 \<or> c = 5760 \<or>
     (8192 \<le> c \<and> c \<le> 8202) \<or> c = 8232 \<or> c = 8233 \<or> c = 8239 \<or> c = 8287 \<or> c = 12288"

text \<open>\<open>s.strip()\<close>: leading and trailing whitespace removed.\<close>

definition strip :: "ustr \<Rightarrow> ustr" where
  "strip s = rev (dropWhile isspace (rev (dropWhile isspace s)))"

text \<open>\<open>s.rstrip(chars)\<close>: the longest suffix made of characters of \<open>chars\<close> removed.\<close>

definition rstrip :: "ustr \<Rightarrow> ustr \<Rightarrow> ustr" where
  "rstrip s chars = rev (dropWhile (\<lambda>c. c \<in> set chars) (rev s))"

text \<open>\<open>s.startswith(p)\<close> and \<open>s.endswith(p)\<close>.\<close>

definition startswith :: "ustr \<Rightarrow> ustr \<Rightarrow> bool" where
  "startswith s p \<longleftrightarrow> take (length p) s = p"

definition endswith :: "ustr \<Rightarrow> ustr \<Rightarrow> bool" where
  "endswith s p \<longleftrightarrow> length p \<le> length s \<and> drop (length s - length p) s = p"


section \<open>Configuration\<close>

text \<open>
  The dataclass \<open>WhisplayIMConfig\<close>. The optional token is \<open>None\<close> or a string; the two
  integer fields are Python integers.
\<close>

record WhisplayIMConfig =
  ip :: ustr
  token :: "ustr option"
  wait_sec :: int
  timeout_sec :: int

text \<open>
  The property \<open>base_url\<close>:
  \<^verbatim>\<open>
    ip = self.ip.strip()
    if ip.startswith("http://") or ip.startswith("https://"):
        return ip.rstrip("/")
    return f"http://{ip.rstrip('/')}"
  \<close>
\<close>

definition base_url :: "WhisplayIMConfig \<Rightarrow> ustr" where
  "base_url cfg =
     (let ip' = strip (ip cfg) in
      if startswith ip' (ascii ''http://'') \<or> startswith ip' (ascii ''https://'')
      then rstrip ip' (ascii ''/'')
      else ascii ''http://'' @ rstrip ip' (ascii ''/''))"

text \<open>
  What is left of a trimmed address once a leading \<open>http://\<close> or \<open>https://\<close> is taken
  away. It is used only to state for which addresses the invariant of the base URL holds.
\<close>

definition after_scheme :: "ustr \<Rightarrow> ustr" where
  "after_scheme t =
     (if startswith t (ascii ''http://'') then drop 7 t
      else if startswith t (ascii ''https://'') then drop 8 t
      else t)"


section \<open>Python values and dictionaries\<close>

text \<open>
  The values that decoding a JSON document yields in Python: \<open>None\<close>, booleans, integers,
  floats, strings, lists and dictionaries with string keys. A float is kept as its IEEE 754
  double bit pattern; the client only ever tests it for truth. A dictionary is an
  association list in insertion order.
\<close>

datatype pyval =
    PNone
  | PBool bool
  | PInt int
  | PFloat "64 word"
  | PStr ustr
  | PList "pyval list"
  | PDict "(ustr \<times> pyval) list"

type_synonym pydict = "(ustr \<times> pyval) list"

text \<open>
  Python's truth test (\<open>bool(v)\<close>, \<open>if v\<close>, \<open>not v\<close>). A float is false exactly when it is
  \<open>0.0\<close> or \<open>-0.0\<close>, that is when all bits but the sign bit are clear.
\<close>

fun truthy :: "pyval \<Rightarrow> bool" where
  "truthy PNone = False"
| "truthy (PBool b) = b"
| "truthy (PInt i) = (i \<noteq> 0)"
| "truthy (PFloat w) = (take_bit 63 w \<noteq> 0)"
| "truthy (PStr s) = (s \<noteq> [])"
| "truthy (PList xs) = (xs \<noteq> [])"
| "truthy (PDict d) = (d \<noteq> [])"

text \<open>
  \<open>isinstance(v, list)\<close>, \<open>isinstance(v, dict)\<close>, the entries of a dictionary value and the
  elements of a list value.
\<close>

fun isinstance_list :: "pyval \<Rightarrow> bool" where
  "isinstance_list (PList xs) = True"
| "isinstance_list v = False"

fun isinstance_dict :: "pyval \<Rightarrow> bool" where
  "isinstance_dict (PDict d) = True"
| "isinstance_dict v = False"

fun dict_items :: "pyval \<Rightarrow> pydict" where
  "dict_items (PDict d) = d"
| "dict_items v = []"

fun items :: "pyval \<Rightarrow> pyval list" where
  "items (PList xs) = xs"
| "items v = []"

text \<open>\<open>d.get(k)\<close>: the value stored under \<open>k\<close>, or \<open>None\<close>.\<close>

definition dict_get :: "pydict \<Rightarrow> ustr \<Rightarrow> pyval" where
  "dict_get d k = (case map_of d k of None \<Rightarrow> PNone | Some v \<Rightarrow> v)"

text \<open>\<open>d[k] = v\<close>: an existing key keeps its place, a new key goes to the end.\<close>

fun dict_set :: "('k \<times> 'v) list \<Rightarrow> 'k \<Rightarrow> 'v \<Rightarrow> ('k \<times> 'v) list" where
  "dict_set [] k v = [(k, v)]"
| "dict_set ((k', v') # d) k v =
     (if k' = k then (k, v) # d else (k', v') # dict_set d k v)"

text \<open>\<open>x or ""\<close> for an optional string \<open>x\<close>.\<close>

definition or_empty :: "ustr option \<Rightarrow> ustr" where
  "or_empty x = (case x of None \<Rightarrow> [] | Some t \<Rightarrow> if t \<noteq> [] then t else [])"


section \<open>The HTTP library\<close>

text \<open>
  The client talks to the server through the \<open>requests\<close> library, which is not part of
  the repository. What the client sees of it is modelled here.

  A response has a status code, its body as text, and the outcome of \<open>response.json()\<close>:
  the decoded value, or the exception the call raises. That is its decoding error, which
  is a \<open>ValueError\<close>, for a body that is not JSON, and \<open>RecursionError\<close> for a body that
  is nested deeper than the decoder can follow.
\<close>

datatype decode_exn = ValueError | RecursionError

record response =
  status_code :: int
  resp_text :: ustr
  resp_json :: "decode_exn + pyval"

text \<open>
  The exceptions that leave \<open>poll\<close> and \<open>send\<close>: the one \<open>raise_for_status\<close> raises,
  which carries the response, the failures of the transport itself, and an exception of
  \<open>response.json()\<close> that nothing catches.
\<close>

datatype exn = HTTPError response | ConnectionError | Timeout | Uncaught decode_exn

text \<open>
  \<open>response.raise_for_status()\<close> as the library defines it: it raises for a client error
  (\<open>400 <= status_code < 500\<close>) and for a server error (\<open>500 <= status_code < 600\<close>), and
  returns normally for every other status code.
\<close>

definition raise_for_status :: "response \<Rightarrow> exn option" where
  "raise_for_status r =
     (if 400 \<le> status_code r \<and> status_code r < 500 then Some (HTTPError r)
      else if 500 \<le> status_code r \<and> status_code r < 600 then Some (HTTPError r)
      else None)"

datatype http_method = GET | POST

record request =
  req_method :: http_method
  req_url :: ustr
  req_params :: "(ustr \<times> int) list"
  req_headers :: "(ustr \<times> ustr) list"
  req_data :: "ustr option"
  req_timeout :: int

text \<open>
  \<open>session.get\<close> and \<open>session.post\<close>: the session (of some type \<open>'s\<close>: cookies,
  connections) receives a request and yields a response or an exception, and its new state.
\<close>

type_synonym 's transport = "'s \<Rightarrow> request \<Rightarrow> (exn + response) \<times> 's"

text \<open>
  Two transports to run the client against: \<open>recording\<close> keeps the list of the requests it
  was given and lets a server function answer; \<open>reply_with\<close> is the server that answers
  every request with one response.
\<close>

definition recording :: "(request \<Rightarrow> exn + response) \<Rightarrow> request list transport" where
  "recording server log req = (server req, log @ [req])"

definition reply_with :: "response \<Rightarrow> request \<Rightarrow> exn + response" where
  "reply_with r req = Inr r"


section \<open>JSON encoding of the request body\<close>

text \<open>
  \<open>json.dumps(body, ensure_ascii=False)\<close> for a dictionary from strings to strings, as the
  standard library encodes it: a string is quoted, with the quote, the backslash and the
  control characters below U+0020 escaped and every other code point left as it is; the
  items of a dictionary are joined by \<open>", "\<close> and key and value by \<open>": "\<close>.
\<close>

definition hexdigit :: "nat \<Rightarrow> nat" where
  "hexdigit n = (if n < 10 then 48 + n else 87 + n)"

definition escape_char :: "nat \<Rightarrow> ustr" where
  "escape_char c =
     (if c = 34 then [92, 34]
      else if c = 92 then [92, 92]
      else if c = 10 then [92, 110]
      else if c = 13 then [92, 114]
      else if c = 9 then [92, 116]
      else if c = 8 then [92, 98]
      else if c = 12 then [92, 102]
      else if c < 32 then [92, 117, 48, 48, hexdigit (c div 16), hexdigit (c mod 16)]
      else [c])"

text \<open>A string between double quotes, with nothing escaped.\<close>

definition quoted :: "ustr \<Rightarrow> ustr" where
  "quoted s = [34] @ s @ [34]"

definition encode_str :: "ustr \<Rightarrow> ustr" where
  "encode_str s = [34] @ concat (map escape_char s) @ [34]"

fun join :: "ustr \<Rightarrow> ustr list \<Rightarrow> ustr" where
  "join sep [] = []"
| "join sep [x] = x"
| "join sep (x # y # xs) = x @ sep @ join sep (y # xs)"

definition encode_member :: "ustr \<times> ustr \<Rightarrow> ustr" where
  "encode_member m = encode_str (fst m) @ [58, 32] @ encode_str (snd m)"

definition json_dumps :: "(ustr \<times> ustr) list \<Rightarrow> ustr" where
  "json_dumps body = [123] @ join [44, 32] (map encode_member body) @ [125]"


section \<open>Reading JSON text\<close>

text \<open>
  A decoder for the JSON texts (RFC 8259) that are objects with strings as values, to say
  what the text that \<open>send\<close> transmits stands for. It is not part of the client.

  Whitespace is blank, tab, line feed and carriage return. In a string, a backslash is
  followed by one of \<open>" \ / b f n r t\<close> or by \<open>u\<close> and four hexadecimal digits, which give
  one code unit; an unescaped control character below U+0020 is an error.
\<close>
definition json_ws :: "nat \<Rightarrow> bool" where
  "json_ws c \<longleftrightarrow> c = 32 \<or> c = 9 \<or> c = 10 \<or> c = 13"

definition skip_ws :: "ustr \<Rightarrow> ustr" where
  "skip_ws s = dropWhile json_ws s"

definition hexval :: "nat \<Rightarrow> nat option" where
  "hexval c =
     (if 48 \<le> c \<and> c \<le> 57 then Some (c - 48)
      else if 97 \<le> c \<and> c \<le> 102 then Some (c - 87)
      else if 65 \<le> c \<and> c \<le> 70 then Some (c - 55)
      else None)"

definition hex4 :: "nat \<Rightarrow> nat \<Rightarrow> nat \<Rightarrow> nat \<Rightarrow> nat option" where
  "hex4 a b c d =
     (case (hexval a, hexval b, hexval c, hexval d) of
        (Some w, Some x, Some y, Some z) \<Rightarrow> Some (((w * 16 + x) * 16 + y) * 16 + z)
      | _ \<Rightarrow> None)"

definition unescape_char :: "nat \<Rightarrow> nat option" where
  "unescape_char e =
     (if e = 34 then Some 34
      else if e = 92 then Some 92
      else if e = 47 then Some 47
      else if e = 98 then Some 8
      else if e = 102 then Some 12
      else if e = 110 then Some 10
      else if e = 114 then Some 13
      else if e = 116 then Some 9
      else None)"

text \<open>
  \<open>string_body\<close> reads a string after its opening quote and returns its characters and
  the text that follows the closing quote; \<open>string_lit\<close> reads a whole string.
\<close>

fun string_body :: "ustr \<Rightarrow> (ustr \<times> ustr) option" where
  "string_body [] = None"
| "string_body (c # cs) =
     (if c = 34 then Some ([], cs)
      else if c = 92 then
        (case cs of
           [] \<Rightarrow> None
         | e # r \<Rightarrow>
             if e = 117 then
               (case r of
                  h1 # h2 # h3 # h4 # r' \<Rightarrow>
                    (case hex4 h1 h2 h3 h4 of
                       None \<Rightarrow> None
                     | Some n \<Rightarrow> map_option (\<lambda>(s, rest). (n # s, rest)) (string_body r'))
                | _ \<Rightarrow> None)
             else
               (case unescape_char e of
                  None \<Rightarrow> None
                | Some x \<Rightarrow> map_option (\<lambda>(s, rest). (x # s, rest)) (string_body r)))
      else if c < 32 then None
      else map_option (\<lambda>(s, rest). (c # s, rest)) (string_body cs))"

definition string_lit :: "ustr \<Rightarrow> (ustr \<times> ustr) option" where
  "string_lit s = (case s of [] \<Rightarrow> None | c # cs \<Rightarrow> if c = 34 then string_body cs else None)"

text \<open>
  \<open>members\<close> reads \<open>string : string\<close> pairs separated by commas and returns them with the
  text that follows; \<open>json_loads\<close> reads an object and nothing after it.
\<close>

function members :: "ustr \<Rightarrow> ((ustr \<times> ustr) list \<times> ustr) option" where
  "members s =
     (case string_lit (skip_ws s) of
        None \<Rightarrow> None
      | Some (k, r1) \<Rightarrow>
          (case skip_ws r1 of
             [] \<Rightarrow> None
           | c1 # r2 \<Rightarrow>
               if c1 \<noteq> 58 then None
               else
                 (case string_lit (skip_ws r2) of
                    None \<Rightarrow> None
                  | Some (v, r3) \<Rightarrow>
                      (case skip_ws r3 of
                         [] \<Rightarrow> Some ([(k, v)], [])
                       | c2 # r4 \<Rightarrow>
                           if c2 = 44
                           then map_option (\<lambda>(ms, rest). ((k, v) # ms, rest)) (members r4)
                           else Some ([(k, v)], c2 # r4)))))"
  by pat_completeness auto
termination
proof (relation "measure length")
  show "wf (measure length)" by simp
next
  fix s :: ustr and x2 k r1 c1 r2 x2a v r3 c2 r4
  assume a: "string_lit (skip_ws s) = Some x2" "(k, r1) = x2" "skip_ws r1 = c1 # r2"
    "string_lit (skip_ws r2) = Some x2a" "(v, r3) = x2a" "skip_ws r3 = c2 # r4"
  have shorter: "length r < length t" if "string_lit t = Some (w, r)" for t w r
  proof -
    have b: "length r' < length t'" if "string_body t' = Some (w', r')" for t' w' r'
      using that
    proof (induction t' arbitrary: w' r' rule: string_body.induct)
      case 1
      then show ?case by simp
    next
      case (2 c cs)
      then show ?case
        by (auto split: if_splits list.splits option.splits) fastforce+
    qed
    from that show ?thesis
      by (auto simp: string_lit_def split: list.splits if_splits dest: b)
  qed
  have ws: "length (skip_ws t) \<le> length t" for t
    by (simp add: skip_ws_def length_dropWhile_le)
  from a(1,2) have 1: "length r1 < length (skip_ws s)" using shorter by metis
  from a(3) ws [of r1] have 2: "length r2 < length r1" by simp
  from a(4,5) have 3: "length r3 < length (skip_ws r2)" using shorter by metis
  from a(6) ws [of r3] have 4: "length r4 < length r3" by simp
  from 1 2 3 4 ws [of s] ws [of r2] show "(r4, s) \<in> measure length" by simp
qed

definition json_loads :: "ustr \<Rightarrow> (ustr \<times> ustr) list option" where
  "json_loads s =
     (case skip_ws s of
        [] \<Rightarrow> None
      | c # r \<Rightarrow>
          if c \<noteq> 123 then None
          else
            (case skip_ws r of
               [] \<Rightarrow> None
             | c' # r' \<Rightarrow>
                 if c' = 125 then (if skip_ws r' = [] then Some [] else None)
                 else
                   (case members r of
                      None \<Rightarrow> None
                    | Some (ms, rest) \<Rightarrow>
                        (case rest of
                           [] \<Rightarrow> None
                         | c'' # r'' \<Rightarrow>
                             if c'' = 125 \<and> skip_ws r'' = [] then Some ms else None))))"


section \<open>The channel client\<close>

text \<open>
  \<open>WhisplayIMChannel\<close>: the configuration and the session. The \<open>requests\<close> module the
  object also holds is the transport, which the operations take as a parameter.
\<close>

record 's WhisplayIMChannel =
  config :: WhisplayIMConfig
  session :: 's

text \<open>
  \<open>_headers\<close>:
  \<^verbatim>\<open>
    headers = {"Content-Type": "application/json"}
    token = (self.config.token or "").strip()
    if token:
        headers["Authorization"] = f"Bearer {token}"
    return headers
  \<close>
\<close>

definition headers :: "'s WhisplayIMChannel \<Rightarrow> (ustr \<times> ustr) list" where
  "headers self =
     (let hs = [(ascii ''Content-Type'', ascii ''application/json'')];
          token' = strip (or_empty (token (config self)))
      in if token' \<noteq> []
         then dict_set hs (ascii ''Authorization'') (ascii ''Bearer '' @ token')
         else hs)"

text \<open>
  \<open>_safe_json\<close>:
  \<^verbatim>\<open>
    if not response.text.strip():
        return {}
    try:
        data = response.json()
        if isinstance(data, dict):
            return data
        return {"data": data}
    except ValueError:
        return {"text": response.text}
  \<close>
\<close>

text \<open>
  The \<open>except\<close> clause catches \<open>ValueError\<close> and nothing else: any other exception of
  \<open>response.json()\<close> leaves \<open>_safe_json\<close>.
\<close>

definition safe_json :: "response \<Rightarrow> exn + pydict" where
  "safe_json response =
     (if strip (resp_text response) = [] then Inr []
      else case resp_json response of
             Inr data \<Rightarrow>
               if isinstance_dict data then Inr (dict_items data)
               else Inr [(ascii ''data'', data)]
           | Inl ValueError \<Rightarrow> Inr [(ascii ''text'', PStr (resp_text response))]
           | Inl e \<Rightarrow> Inl (Uncaught e))"

text \<open>
  The request of \<open>poll\<close>: a GET of \<open><base_url>/whisplay-im/poll\<close> with the parameter
  \<open>waitSec\<close>, which is the argument or, when that is \<open>None\<close>, the configured default.
\<close>

definition poll_request :: "'s WhisplayIMChannel \<Rightarrow> int option \<Rightarrow> request" where
  "poll_request self wait_sec' =
     (let wait = (case wait_sec' of None \<Rightarrow> wait_sec (config self) | Some w \<Rightarrow> w) in
      \<lparr>req_method = GET,
       req_url = base_url (config self) @ ascii ''/whisplay-im/poll'',
       req_params = [(ascii ''waitSec'', wait)],
       req_headers = headers self,
       req_data = None,
       req_timeout = timeout_sec (config self)\<rparr>)"

text \<open>
  What \<open>poll\<close> makes of the decoded payload:
  \<^verbatim>\<open>
    if not payload:
        return None
    message = payload.get("message")
    messages = payload.get("messages")
    if not message and messages and isinstance(messages, list):
        latest = messages[-1]
        if isinstance(latest, dict):
            message = latest.get("content")
    if not message:
        return None
    return {"text": message, "messages": messages, "raw": payload}
  \<close>
  \<open>messages[-1]\<close> is read only from a list that is not empty.
\<close>

definition poll_result :: "pydict \<Rightarrow> pydict option" where
  "poll_result payload =
     (if \<not> truthy (PDict payload) then None
      else
        let message = dict_get payload (ascii ''message'');
            messages = dict_get payload (ascii ''messages'');
            message =
              (if \<not> truthy message \<and> truthy messages \<and> isinstance_list messages
               then (case last (items messages) of
                       PDict latest \<Rightarrow> dict_get latest (ascii ''content'')
                     | _ \<Rightarrow> message)
               else message)
        in if \<not> truthy message then None
           else Some [(ascii ''text'', message),
                      (ascii ''messages'', messages),
                      (ascii ''raw'', PDict payload)])"

text \<open>
  \<open>poll\<close>: the request goes to the session; an exception of the transport, of
  \<open>raise_for_status\<close> or of \<open>_safe_json\<close> leaves the method; otherwise the payload is
  what \<open>_safe_json(response)\<close> returns. The result comes with the channel after the call.
\<close>

definition poll ::
  "'s transport \<Rightarrow> 's WhisplayIMChannel \<Rightarrow> int option
     \<Rightarrow> (exn + pydict option) \<times> 's WhisplayIMChannel" where
  "poll http self wait_sec' =
     (case http (session self) (poll_request self wait_sec') of
        (Inl e, s') \<Rightarrow> (Inl e, self\<lparr>session := s'\<rparr>)
      | (Inr response, s') \<Rightarrow>
          (case raise_for_status response of
             Some e \<Rightarrow> (Inl e, self\<lparr>session := s'\<rparr>)
           | None \<Rightarrow>
               (case safe_json response of
                  Inl e \<Rightarrow> (Inl e, self\<lparr>session := s'\<rparr>)
                | Inr payload \<Rightarrow> (Inr (poll_result payload), self\<lparr>session := s'\<rparr>))))"

text \<open>
  The body of \<open>send\<close>:
  \<^verbatim>\<open>
    body: dict[str, Any] = {"reply": reply}
    if emoji:
        body["emoji"] = emoji
  \<close>
\<close>

definition send_body :: "ustr \<Rightarrow> ustr option \<Rightarrow> (ustr \<times> ustr) list" where
  "send_body reply emoji =
     (let body = [(ascii ''reply'', reply)] in
      case emoji of
        None \<Rightarrow> body
      | Some e \<Rightarrow> if e \<noteq> [] then dict_set body (ascii ''emoji'') e else body)"

text \<open>
  The request of \<open>send\<close>: a POST to \<open><base_url>/whisplay-im/send\<close> whose data is
  \<open>json.dumps(body, ensure_ascii=False)\<close>. Then \<open>send\<close> itself, which returns
  what \<open>_safe_json(response)\<close> returns unless the transport, \<open>raise_for_status\<close> or
  \<open>_safe_json\<close> raises.
\<close>

definition send_request :: "'s WhisplayIMChannel \<Rightarrow> ustr \<Rightarrow> ustr option \<Rightarrow> request" where
  "send_request self reply emoji =
     \<lparr>req_method = POST,
      req_url = base_url (config self) @ ascii ''/whisplay-im/send'',
      req_params = [],
      req_headers = headers self,
      req_data = Some (json_dumps (send_body reply emoji)),
      req_timeout = timeout_sec (config self)\<rparr>"

definition send ::
  "'s transport \<Rightarrow> 's WhisplayIMChannel \<Rightarrow> ustr \<Rightarrow> ustr option
     \<Rightarrow> (exn + pydict) \<times> 's WhisplayIMChannel" where
  "send http self reply emoji =
     (case http (session self) (send_request self reply emoji) of
        (Inl e, s') \<Rightarrow> (Inl e, self\<lparr>session := s'\<rparr>)
      | (Inr response, s') \<Rightarrow>
          (case raise_for_status response of
             Some e \<Rightarrow> (Inl e, self\<lparr>session := s'\<rparr>)
           | None \<Rightarrow> (safe_json response, self\<lparr>session := s'\<rparr>)))"

text \<open>
  A caller of the client: a sequence of \<open>poll\<close> and \<open>send\<close> calls on one channel, each
  on the channel the call before left, whatever that call returned or raised.
\<close>

datatype call = Poll "int option" | Send ustr "ustr option"

fun run_calls :: "'s transport \<Rightarrow> 's WhisplayIMChannel \<Rightarrow> call list \<Rightarrow> 's WhisplayIMChannel" where
  "run_calls http self [] = self"
| "run_calls http self (Poll w # cs) = run_calls http (snd (poll http self w)) cs"
| "run_calls http self (Send r e # cs) = run_calls http (snd (send http self r e)) cs"


section \<open>Facts about the string operations\<close>

lemma ascii_http: "ascii ''http://'' = [104, 116, 116, 112, 58, 47, 47]"
  by (simp add: ascii_def)

lemma ascii_https: "ascii ''https://'' = [104, 116, 116, 112, 115, 58, 47, 47]"
  by (simp add: ascii_def)

lemma ascii_slash: "ascii ''/'' = [47]"
  by (simp add: ascii_def)

lemma rstrip_append:
  "rstrip (xs @ ys) cs = (if set ys \<subseteq> set cs then rstrip xs cs else xs @ rstrip ys cs)"
  by (auto simp: rstrip_def dropWhile_append)

lemma rstrip_last: "rstrip s cs \<noteq> [] \<Longrightarrow> last (rstrip s cs) \<notin> set cs"
proof -
  assume ne: "rstrip s cs \<noteq> []"
  let ?d = "dropWhile (\<lambda>c. c \<in> set cs) (rev s)"
  from ne have d: "?d \<noteq> []" by (simp add: rstrip_def)
  then have "hd ?d \<notin> set cs" by (rule hd_dropWhile)
  moreover have "last (rstrip s cs) = hd ?d"
    using d by (simp add: rstrip_def last_rev)
  ultimately show ?thesis by simp
qed

lemma rstrip_Nil_iff: "rstrip s cs = [] \<longleftrightarrow> set s \<subseteq> set cs"
  by (auto simp: rstrip_def)

lemma rstrip_id: "s = [] \<or> last s \<notin> set cs \<Longrightarrow> rstrip s cs = s"
proof (cases s rule: rev_cases)
  case Nil
  then show ?thesis by (simp add: rstrip_def)
next
  case (snoc ys y)
  assume "s = [] \<or> last s \<notin> set cs"
  with snoc have "y \<notin> set cs" by simp
  with snoc show ?thesis by (simp add: rstrip_def)
qed

lemma endswith_single: "endswith s [c] \<longleftrightarrow> s \<noteq> [] \<and> last s = c"
proof (cases s rule: rev_cases)
  case Nil
  then show ?thesis by (simp add: endswith_def)
next
  case (snoc ys y)
  then show ?thesis by (auto simp: endswith_def)
qed

lemma rstrip_not_endswith: "\<not> endswith (rstrip s [c]) [c]"
  using rstrip_last [of s "[c]"] by (auto simp: endswith_single)

lemma startswith_append: "startswith (p @ s) p"
  by (simp add: startswith_def)

lemma startswith_decomp: "startswith s p \<Longrightarrow> s = p @ drop (length p) s"
  by (metis append_take_drop_id startswith_def)

lemma dropWhile_rev_fix:
  assumes "d = [] \<or> \<not> P (hd d)"
  shows "dropWhile P (rev (dropWhile P (rev d))) = rev (dropWhile P (rev d))"
proof (cases d)
  case Nil
  then show ?thesis by simp
next
  case (Cons x xs)
  with assms have nx: "\<not> P x" by simp
  then have "dropWhile P (rev xs @ [x]) = dropWhile P (rev xs) @ [x]"
    by (rule dropWhile_append3)
  with Cons nx show ?thesis by simp
qed

lemma strip_idem: "strip (strip s) = strip s"
proof -
  let ?d = "dropWhile isspace s"
  have "?d = [] \<or> \<not> isspace (hd ?d)"
    using hd_dropWhile [of isspace s] by blast
  then have "dropWhile isspace (rev (dropWhile isspace (rev ?d))) = rev (dropWhile isspace (rev ?d))"
    by (rule dropWhile_rev_fix)
  then show ?thesis by (simp add: strip_def)
qed

lemma rstrip_scheme:
  assumes "startswith t p"
  shows "rstrip t cs =
    (if set (drop (length p) t) \<subseteq> set cs then rstrip p cs else p @ rstrip (drop (length p) t) cs)"
proof -
  from assms have "t = p @ drop (length p) t" by (rule startswith_decomp)
  then have "rstrip t cs = rstrip (p @ drop (length p) t) cs" by simp
  then show ?thesis by (simp only: rstrip_append)
qed

lemma rstrip_http: "rstrip (ascii ''http://'') [47] = [104, 116, 116, 112, 58]"
  by (simp add: rstrip_def ascii_http)

lemma rstrip_https: "rstrip (ascii ''https://'') [47] = [104, 116, 116, 112, 115, 58]"
  by (simp add: rstrip_def ascii_https)

lemma length_http: "length (ascii ''http://'') = 7"
  by (simp add: ascii_def)

lemma length_https: "length (ascii ''https://'') = 8"
  by (simp add: ascii_def)

lemma http_not_https:
  assumes "startswith t (ascii ''http://'')"
  shows "\<not> startswith t (ascii ''https://'')"
proof
  assume "startswith t (ascii ''https://'')"
  then have "take 8 t = [104, 116, 116, 112, 115, 58, 47, 47]"
    unfolding startswith_def length_https by (simp only: ascii_https)
  then have "take 8 t ! 4 = 115" by simp
  moreover have "take 8 t ! 4 = t ! 4" by (rule nth_take) simp
  ultimately have a: "t ! 4 = 115" by simp
  from assms have "take 7 t = [104, 116, 116, 112, 58, 47, 47]"
    unfolding startswith_def length_http by (simp only: ascii_http)
  then have "take 7 t ! 4 = 58" by simp
  moreover have "take 7 t ! 4 = t ! 4" by (rule nth_take) simp
  ultimately have "t ! 4 = 58" by simp
  with a show False by simp
qed

lemma rstrip_http_prefix:
  assumes "startswith t (ascii ''http://'')"
  shows "rstrip t [47] =
    (if set (drop 7 t) \<subseteq> {47} then [104, 116, 116, 112, 58]
     else ascii ''http://'' @ rstrip (drop 7 t) [47])"
  using rstrip_scheme [OF assms, of "[47]"] unfolding length_http rstrip_http by simp

lemma rstrip_https_prefix:
  assumes "startswith t (ascii ''https://'')"
  shows "rstrip t [47] =
    (if set (drop 8 t) \<subseteq> {47} then [104, 116, 116, 112, 115, 58]
     else ascii ''https://'' @ rstrip (drop 8 t) [47])"
  using rstrip_scheme [OF assms, of "[47]"] unfolding length_https rstrip_https by simp


section \<open>The base URL\<close>

text \<open>
  Claim C4, as amended. The claim that every base URL starts with \<open>http://\<close> or
  \<open>https://\<close> and never ends with \<open>/\<close> fails for addresses without a host. What holds:
  the base URL starts with \<open>http://\<close> or \<open>https://\<close> and does not end with \<open>/\<close> exactly
  when the trimmed address, after a leading \<open>http://\<close> or \<open>https://\<close> is taken away,
  has a character other than \<open>/\<close>.
\<close>

theorem base_url_invariant_iff:
  "(startswith (base_url cfg) (ascii ''http://'') \<or> startswith (base_url cfg) (ascii ''https://''))
     \<and> \<not> endswith (base_url cfg) (ascii ''/'')
   \<longleftrightarrow> (\<exists>c \<in> set (after_scheme (strip (ip cfg))). c \<noteq> 47)"
proof -
  let ?t = "strip (ip cfg)"
  let ?http = "ascii ''http://''" and ?https = "ascii ''https://''"
  consider (http) "startswith ?t ?http" | (https) "startswith ?t ?https"
    | (none) "\<not> startswith ?t ?http" "\<not> startswith ?t ?https"
    by blast
  then show ?thesis
  proof cases
    case http
    let ?h = "drop 7 ?t"
    have b: "base_url cfg = rstrip ?t [47]"
      using http by (simp add: base_url_def ascii_slash)
    have a: "after_scheme ?t = ?h" using http by (simp add: after_scheme_def)
    have r: "rstrip ?t [47] = (if set ?h \<subseteq> {47} then [104, 116, 116, 112, 58] else ?http @ rstrip ?h [47])"
      using http by (rule rstrip_http_prefix)
    show ?thesis
    proof (cases "set ?h \<subseteq> {47}")
      case True
      with r b have "base_url cfg = [104, 116, 116, 112, 58]" by simp
      then have "\<not> startswith (base_url cfg) ?http" "\<not> startswith (base_url cfg) ?https"
        by (simp_all add: startswith_def ascii_http ascii_https)
      with True a show ?thesis by auto
    next
      case False
      with r b have "base_url cfg = ?http @ rstrip ?h [47]" by simp
      then have "startswith (base_url cfg) ?http" by (simp add: startswith_append)
      moreover have "\<not> endswith (base_url cfg) (ascii ''/'')"
        using b rstrip_not_endswith [of ?t 47] by (simp add: ascii_slash)
      ultimately show ?thesis using False a by auto
    qed
  next
    case https
    let ?h = "drop 8 ?t"
    have b: "base_url cfg = rstrip ?t [47]"
      using https by (simp add: base_url_def ascii_slash)
    have nh: "\<not> startswith ?t ?http" using https http_not_https by blast
    have a: "after_scheme ?t = ?h" using https nh by (simp add: after_scheme_def)
    have r: "rstrip ?t [47] = (if set ?h \<subseteq> {47} then [104, 116, 116, 112, 115, 58] else ?https @ rstrip ?h [47])"
      using https by (rule rstrip_https_prefix)
    show ?thesis
    proof (cases "set ?h \<subseteq> {47}")
      case True
      with r b have "base_url cfg = [104, 116, 116, 112, 115, 58]" by simp
      then have "\<not> startswith (base_url cfg) ?http" "\<not> startswith (base_url cfg) ?https"
        by (simp_all add: startswith_def ascii_http ascii_https)
      with True a show ?thesis by auto
    next
      case False
      with r b have "base_url cfg = ?https @ rstrip ?h [47]" by simp
      then have "startswith (base_url cfg) ?https" by (simp add: startswith_append)
      moreover have "\<not> endswith (base_url cfg) (ascii ''/'')"
        using b rstrip_not_endswith [of ?t 47] by (simp add: ascii_slash)
      ultimately show ?thesis using False a by auto
    qed
  next
    case none
    let ?r = "rstrip ?t [47]"
    have b: "base_url cfg = ?http @ ?r"
      using none by (simp add: base_url_def ascii_slash)
    have a: "after_scheme ?t = ?t" using none by (simp add: after_scheme_def)
    have s: "startswith (base_url cfg) ?http" using b by (simp add: startswith_append)
    have e: "endswith (base_url cfg) (ascii ''/'') \<longleftrightarrow> ?r = []"
    proof (cases "?r = []")
      case True
      with b show ?thesis by (simp add: endswith_single ascii_slash ascii_http)
    next
      case False
      then have "last ?r \<noteq> 47" using rstrip_last [of ?t "[47]"] by simp
      with False b show ?thesis by (simp add: endswith_single ascii_slash)
    qed
    have "?r = [] \<longleftrightarrow> set ?t \<subseteq> {47}" by (simp add: rstrip_Nil_iff)
    with s e a show ?thesis by auto
  qed
qed


text \<open>
  Claim C4 as stated is false: the address \<open>http://\<close> gives the base URL \<open>http:\<close>, which
  starts with neither scheme, and the empty address gives \<open>http://\<close>, which ends with \<open>/\<close>.
\<close>

theorem base_url_invariant_counterexample:
  "base_url \<lparr>ip = ascii ''http://'', token = None, wait_sec = 30, timeout_sec = 35\<rparr> = ascii ''http:''
   \<and> \<not> startswith (ascii ''http:'') (ascii ''http://'')
   \<and> \<not> startswith (ascii ''http:'') (ascii ''https://'')
   \<and> base_url \<lparr>ip = [], token = None, wait_sec = 30, timeout_sec = 35\<rparr> = ascii ''http://''
   \<and> endswith (ascii ''http://'') (ascii ''/'')"
  by (simp add: base_url_def strip_def rstrip_def startswith_def endswith_def isspace_def ascii_def)

text \<open>The amended C4 at the address \<open>" 10.0.0.5:8080/ "\<close>.\<close>

theorem base_url_invariant_witness:
  "(\<exists>c \<in> set (after_scheme (strip (ascii '' 10.0.0.5:8080/ ''))). c \<noteq> 47)
   \<and> startswith (base_url \<lparr>ip = ascii '' 10.0.0.5:8080/ '', token = None, wait_sec = 30, timeout_sec = 35\<rparr>)
        (ascii ''http://'')
   \<and> \<not> endswith (base_url \<lparr>ip = ascii '' 10.0.0.5:8080/ '', token = None, wait_sec = 30, timeout_sec = 35\<rparr>)
        (ascii ''/'')"
proof -
  let ?cfg = "\<lparr>ip = ascii '' 10.0.0.5:8080/ '', token = None, wait_sec = 30, timeout_sec = 35\<rparr>"
  have h: "\<exists>c \<in> set (after_scheme (strip (ip ?cfg))). c \<noteq> 47"
    by (simp add: after_scheme_def strip_def startswith_def isspace_def ascii_def)
  have s: "startswith (base_url ?cfg) (ascii ''http://'')"
    by (simp add: base_url_def strip_def rstrip_def startswith_def isspace_def ascii_def)
  from h base_url_invariant_iff [of ?cfg]
  have "\<not> endswith (base_url ?cfg) (ascii ''/'')" by blast
  with h s show ?thesis by simp
qed

text \<open>
  Claim C5. The base URL depends on the address only through its trimmed form. For a
  trimmed address that starts with \<open>http://\<close> or \<open>https://\<close> (compared character by
  character, so case matters) and does not end with \<open>/\<close>, the base URL is the trimmed
  address itself; for a trimmed address without such a prefix it is \<open>http://\<close> followed by
  the trimmed address with its trailing slashes removed. \<open>10.0.0.5:8080\<close> becomes
  \<open>http://10.0.0.5:8080\<close> and \<open>https://host/\<close> becomes \<open>https://host\<close>.
\<close>

theorem base_url_normalization:
  "base_url cfg = base_url (cfg\<lparr>ip := strip (ip cfg)\<rparr>)
   \<and> ((startswith (strip (ip cfg)) (ascii ''http://'') \<or> startswith (strip (ip cfg)) (ascii ''https://''))
        \<and> \<not> endswith (strip (ip cfg)) (ascii ''/'')
      \<longrightarrow> base_url cfg = strip (ip cfg))
   \<and> (\<not> startswith (strip (ip cfg)) (ascii ''http://'') \<and> \<not> startswith (strip (ip cfg)) (ascii ''https://'')
      \<longrightarrow> base_url cfg = ascii ''http://'' @ rstrip (strip (ip cfg)) (ascii ''/''))
   \<and> base_url (cfg\<lparr>ip := ascii ''10.0.0.5:8080''\<rparr>) = ascii ''http://10.0.0.5:8080''
   \<and> base_url (cfg\<lparr>ip := ascii ''https://host/''\<rparr>) = ascii ''https://host''"
proof (intro conjI impI)
  show "base_url cfg = base_url (cfg\<lparr>ip := strip (ip cfg)\<rparr>)"
    by (simp add: base_url_def strip_idem)
next
  assume a: "(startswith (strip (ip cfg)) (ascii ''http://'') \<or> startswith (strip (ip cfg)) (ascii ''https://''))
        \<and> \<not> endswith (strip (ip cfg)) (ascii ''/'')"
  then have "strip (ip cfg) = [] \<or> last (strip (ip cfg)) \<notin> set [47]"
    by (simp add: endswith_single ascii_slash)
  then have "rstrip (strip (ip cfg)) [47] = strip (ip cfg)" by (rule rstrip_id)
  with a show "base_url cfg = strip (ip cfg)"
    by (simp add: base_url_def ascii_slash)
next
  assume "\<not> startswith (strip (ip cfg)) (ascii ''http://'') \<and> \<not> startswith (strip (ip cfg)) (ascii ''https://'')"
  then show "base_url cfg = ascii ''http://'' @ rstrip (strip (ip cfg)) (ascii ''/'')"
    by (simp add: base_url_def)
next
  show "base_url (cfg\<lparr>ip := ascii ''10.0.0.5:8080''\<rparr>) = ascii ''http://10.0.0.5:8080''"
    by (simp add: base_url_def strip_def rstrip_def startswith_def isspace_def ascii_def)
next
  show "base_url (cfg\<lparr>ip := ascii ''https://host/''\<rparr>) = ascii ''https://host''"
    by (simp add: base_url_def strip_def rstrip_def startswith_def isspace_def ascii_def)
qed

text \<open>
  C5 at \<open>" https://host:8443/api "\<close>, which has a scheme, and at \<open>HTTP://Host//\<close>, which
  has none since the comparison is case-sensitive.
\<close>

theorem base_url_normalization_witness:
  "startswith (strip (ascii '' https://host:8443/api '')) (ascii ''https://'')
   \<and> \<not> endswith (strip (ascii '' https://host:8443/api '')) (ascii ''/'')
   \<and> base_url \<lparr>ip = ascii '' https://host:8443/api '', token = None, wait_sec = 30, timeout_sec = 35\<rparr>
       = ascii ''https://host:8443/api''
   \<and> \<not> startswith (strip (ascii ''HTTP://Host//'')) (ascii ''http://'')
   \<and> \<not> startswith (strip (ascii ''HTTP://Host//'')) (ascii ''https://'')
   \<and> base_url \<lparr>ip = ascii ''HTTP://Host//'', token = None, wait_sec = 30, timeout_sec = 35\<rparr>
       = ascii ''http://HTTP://Host''"
proof -
  let ?a = "\<lparr>ip = ascii '' https://host:8443/api '', token = None, wait_sec = 30, timeout_sec = 35\<rparr>"
  let ?b = "\<lparr>ip = ascii ''HTTP://Host//'', token = None, wait_sec = 30, timeout_sec = 35\<rparr>"
  have sa: "strip (ascii '' https://host:8443/api '') = ascii ''https://host:8443/api''"
    by (simp add: strip_def isspace_def ascii_def)
  have sb: "strip (ascii ''HTTP://Host//'') = ascii ''HTTP://Host//''"
    by (simp add: strip_def isspace_def ascii_def)
  have a1: "startswith (strip (ip ?a)) (ascii ''https://'')"
    by (simp add: sa) (simp add: startswith_def ascii_def)
  have a2: "\<not> endswith (strip (ip ?a)) (ascii ''/'')"
    by (simp add: sa) (simp add: endswith_def ascii_def)
  have b1: "\<not> startswith (strip (ip ?b)) (ascii ''http://'')"
    by (simp add: sb) (simp add: startswith_def ascii_def)
  have b2: "\<not> startswith (strip (ip ?b)) (ascii ''https://'')"
    by (simp add: sb) (simp add: startswith_def ascii_def)
  have rb: "rstrip (ascii ''HTTP://Host//'') (ascii ''/'') = ascii ''HTTP://Host''"
    by (simp add: rstrip_def ascii_def)
  from a1 a2 base_url_normalization [of ?a] have ra: "base_url ?a = strip (ip ?a)" by blast
  from b1 b2 base_url_normalization [of ?b]
  have "base_url ?b = ascii ''http://'' @ rstrip (strip (ip ?b)) (ascii ''/'')" by blast
  then have "base_url ?b = ascii ''http://HTTP://Host''"
    by (simp add: sb rb) (simp add: ascii_def)
  with ra a1 a2 b1 b2 show ?thesis by (simp add: sa)
qed


section \<open>Facts about the operations\<close>

lemma strip_Nil: "strip [] = []"
  by (simp add: strip_def)

lemma poll_ok:
  assumes "http (session ch) (poll_request ch w) = (Inr resp, s')"
    and "\<not> (400 \<le> status_code resp \<and> status_code resp < 600)"
  shows "poll http ch w =
    (case safe_json resp of Inl e \<Rightarrow> Inl e | Inr p \<Rightarrow> Inr (poll_result p), ch\<lparr>session := s'\<rparr>)"
  using assms by (auto simp: poll_def raise_for_status_def split: sum.split)

lemma poll_error:
  assumes "http (session ch) (poll_request ch w) = (Inr resp, s')"
    and "400 \<le> status_code resp" and "status_code resp < 600"
  shows "poll http ch w = (Inl (HTTPError resp), ch\<lparr>session := s'\<rparr>)"
  using assms by (auto simp: poll_def raise_for_status_def)

lemma send_ok:
  assumes "http (session ch) (send_request ch r e) = (Inr resp, s')"
    and "\<not> (400 \<le> status_code resp \<and> status_code resp < 600)"
  shows "send http ch r e = (safe_json resp, ch\<lparr>session := s'\<rparr>)"
  using assms by (auto simp: send_def raise_for_status_def)

lemma send_error:
  assumes "http (session ch) (send_request ch r e) = (Inr resp, s')"
    and "400 \<le> status_code resp" and "status_code resp < 600"
  shows "send http ch r e = (Inl (HTTPError resp), ch\<lparr>session := s'\<rparr>)"
  using assms by (auto simp: send_def raise_for_status_def)

lemma strip_brackets: "0 < n \<Longrightarrow> strip (replicate n 91) \<noteq> []"
  by (simp add: strip_def isspace_def)


section \<open>The JSON-safety helper\<close>

text \<open>
  Claim C1, as amended. The claim that \<open>_safe_json\<close> returns a mapping for every body and
  never raises fails for a body on which \<open>response.json()\<close> raises something other than
  \<open>ValueError\<close>. What holds: if the body, trimmed of whitespace, is empty, the result is the
  empty mapping, and \<open>response.json()\<close> is not called; otherwise, if the body decodes to a
  mapping, the result is that mapping; if it decodes to a value \<open>v\<close> that is not a mapping,
  it is \<open>{"data": v}\<close>; if decoding fails with \<open>ValueError\<close>, it is \<open>{"text": <raw body>}\<close>;
  and if \<open>response.json()\<close> raises \<open>RecursionError\<close>, that exception leaves \<open>_safe_json\<close>.
  So \<open>_safe_json\<close> returns a mapping exactly when the trimmed body is empty or
  \<open>response.json()\<close> returns or raises \<open>ValueError\<close>.
\<close>

theorem safe_json_cases:
  "(strip (resp_text r) = [] \<longrightarrow> safe_json r = Inr [])
   \<and> (strip (resp_text r) \<noteq> [] \<and> resp_json r = Inr (PDict d) \<longrightarrow> safe_json r = Inr d)
   \<and> (strip (resp_text r) \<noteq> [] \<and> resp_json r = Inr v \<and> \<not> isinstance_dict v
        \<longrightarrow> safe_json r = Inr [(ascii ''data'', v)])
   \<and> (strip (resp_text r) \<noteq> [] \<and> resp_json r = Inl ValueError
        \<longrightarrow> safe_json r = Inr [(ascii ''text'', PStr (resp_text r))])
   \<and> (strip (resp_text r) \<noteq> [] \<and> resp_json r = Inl RecursionError
        \<longrightarrow> safe_json r = Inl (Uncaught RecursionError))
   \<and> ((\<exists>m. safe_json r = Inr m)
        \<longleftrightarrow> strip (resp_text r) = [] \<or> resp_json r \<noteq> Inl RecursionError)"
proof -
  have 1: "strip (resp_text r) = [] \<longrightarrow> safe_json r = Inr []"
    by (simp add: safe_json_def)
  have 2: "strip (resp_text r) \<noteq> [] \<and> resp_json r = Inr (PDict d) \<longrightarrow> safe_json r = Inr d"
    by (simp add: safe_json_def)
  have 3: "strip (resp_text r) \<noteq> [] \<and> resp_json r = Inr v \<and> \<not> isinstance_dict v
        \<longrightarrow> safe_json r = Inr [(ascii ''data'', v)]"
    by (simp add: safe_json_def)
  have 4: "strip (resp_text r) \<noteq> [] \<and> resp_json r = Inl ValueError
        \<longrightarrow> safe_json r = Inr [(ascii ''text'', PStr (resp_text r))]"
    by (simp add: safe_json_def)
  have 5: "strip (resp_text r) \<noteq> [] \<and> resp_json r = Inl RecursionError
        \<longrightarrow> safe_json r = Inl (Uncaught RecursionError)"
    by (simp add: safe_json_def)
  have 6: "(\<exists>m. safe_json r = Inr m)
        \<longleftrightarrow> strip (resp_text r) = [] \<or> resp_json r \<noteq> Inl RecursionError"
    by (auto simp: safe_json_def split: sum.splits decode_exn.splits)
  from 1 2 3 4 5 6 show ?thesis by blast
qed

text \<open>
  Claim C1 as stated is false: on a body of 100000 opening brackets, for which
  \<open>response.json()\<close> raises \<open>RecursionError\<close>, \<open>_safe_json\<close> raises, and so do \<open>poll\<close> and
  \<open>send\<close> on a 200 response with this body.
\<close>

theorem safe_json_cases_counterexample:
  "safe_json \<lparr>status_code = 200, resp_text = replicate 100000 91, resp_json = Inl RecursionError\<rparr>
     = Inl (Uncaught RecursionError)
   \<and> fst (poll (recording (reply_with
            \<lparr>status_code = 200, resp_text = replicate 100000 91, resp_json = Inl RecursionError\<rparr>))
         \<lparr>config = \<lparr>ip = ascii ''10.0.0.5:8080'', token = None, wait_sec = 30, timeout_sec = 35\<rparr>,
          session = []\<rparr> None)
     = Inl (Uncaught RecursionError)
   \<and> fst (send (recording (reply_with
            \<lparr>status_code = 200, resp_text = replicate 100000 91, resp_json = Inl RecursionError\<rparr>))
         \<lparr>config = \<lparr>ip = ascii ''10.0.0.5:8080'', token = None, wait_sec = 30, timeout_sec = 35\<rparr>,
          session = []\<rparr> (ascii ''hello'') None)
     = Inl (Uncaught RecursionError)"
proof -
  have "strip (replicate 100000 91) \<noteq> []" by (rule strip_brackets) simp
  then show ?thesis
    by (simp add: safe_json_def poll_def send_def recording_def reply_with_def
        raise_for_status_def)
qed

text \<open>
  The amended C1 at the bodies \<open>""\<close>, \<open>" {} "\<close>, \<open>"[1,2,3]"\<close> and \<open>"not json"\<close>, and at a body
  of 100000 opening brackets, one for each case.
\<close>

theorem safe_json_cases_witness:
  "safe_json \<lparr>status_code = 200, resp_text = [], resp_json = Inl ValueError\<rparr> = Inr []
   \<and> safe_json \<lparr>status_code = 200, resp_text = ascii '' {} '', resp_json = Inr (PDict [])\<rparr> = Inr []
   \<and> safe_json \<lparr>status_code = 200, resp_text = ascii ''[1,2,3]'',
        resp_json = Inr (PList [PInt 1, PInt 2, PInt 3])\<rparr>
       = Inr [(ascii ''data'', PList [PInt 1, PInt 2, PInt 3])]
   \<and> safe_json \<lparr>status_code = 200, resp_text = ascii ''not json'', resp_json = Inl ValueError\<rparr>
       = Inr [(ascii ''text'', PStr (ascii ''not json''))]
   \<and> safe_json \<lparr>status_code = 200, resp_text = replicate 100000 91, resp_json = Inl RecursionError\<rparr>
       = Inl (Uncaught RecursionError)"
proof -
  let ?a = "\<lparr>status_code = 200, resp_text = [], resp_json = Inl ValueError\<rparr>"
  let ?b = "\<lparr>status_code = 200, resp_text = ascii '' {} '', resp_json = Inr (PDict [])\<rparr>"
  let ?c = "\<lparr>status_code = 200, resp_text = ascii ''[1,2,3]'',
        resp_json = Inr (PList [PInt 1, PInt 2, PInt 3])\<rparr>"
  let ?d = "\<lparr>status_code = 200, resp_text = ascii ''not json'', resp_json = Inl ValueError\<rparr>"
  let ?e = "\<lparr>status_code = 200, resp_text = replicate 100000 91, resp_json = Inl RecursionError\<rparr>"
  have a: "strip (resp_text ?a) = []" by (simp add: strip_def)
  have b: "strip (resp_text ?b) \<noteq> []" "resp_json ?b = Inr (PDict [])"
    by (simp_all add: strip_def isspace_def ascii_def)
  have c: "strip (resp_text ?c) \<noteq> []" "resp_json ?c = Inr (PList [PInt 1, PInt 2, PInt 3])"
    "\<not> isinstance_dict (PList [PInt 1, PInt 2, PInt 3])"
    by (simp_all add: strip_def isspace_def ascii_def)
  have d: "strip (resp_text ?d) \<noteq> []" "resp_json ?d = Inl ValueError"
    by (simp_all add: strip_def isspace_def ascii_def)
  have e: "strip (resp_text ?e) \<noteq> []" "resp_json ?e = Inl RecursionError"
    by (simp_all add: strip_brackets)
  from a safe_json_cases [of ?a] have 1: "safe_json ?a = Inr []" by blast
  from b safe_json_cases [of ?b "[]"] have 2: "safe_json ?b = Inr []" by blast
  from c safe_json_cases [of ?c _ "PList [PInt 1, PInt 2, PInt 3]"]
  have 3: "safe_json ?c = Inr [(ascii ''data'', PList [PInt 1, PInt 2, PInt 3])]" by blast
  from d safe_json_cases [of ?d]
  have 4: "safe_json ?d = Inr [(ascii ''text'', PStr (resp_text ?d))]" by blast
  from e safe_json_cases [of ?e] have 5: "safe_json ?e = Inl (Uncaught RecursionError)" by blast
  from 1 2 3 4 5 show ?thesis by simp
qed


section \<open>Request headers\<close>

text \<open>
  Claim C7. The headers are exactly \<open>Content-Type: application/json\<close>, followed by
  \<open>Authorization: Bearer <token>\<close> with the trimmed token if and only if a token is
  configured and is not empty after trimming. \<open>poll\<close> and \<open>send\<close> each issue one request,
  and it carries these headers.
\<close>

theorem headers_exact:
  fixes ch :: "request list WhisplayIMChannel"
  shows "headers ch =
      (case token (config ch) of
         None \<Rightarrow> [(ascii ''Content-Type'', ascii ''application/json'')]
       | Some t \<Rightarrow>
           if strip t \<noteq> []
           then [(ascii ''Content-Type'', ascii ''application/json''),
                 (ascii ''Authorization'', ascii ''Bearer '' @ strip t)]
           else [(ascii ''Content-Type'', ascii ''application/json'')])
   \<and> (ascii ''Authorization'' \<in> fst ` set (headers ch)
        \<longleftrightarrow> (\<exists>t. token (config ch) = Some t \<and> strip t \<noteq> []))
   \<and> session (snd (poll (recording server) ch w)) = session ch @ [poll_request ch w]
   \<and> req_headers (poll_request ch w) = headers ch
   \<and> session (snd (send (recording server) ch r e)) = session ch @ [send_request ch r e]
   \<and> req_headers (send_request ch r e) = headers ch"
proof -
  have neq: "ascii ''Content-Type'' \<noteq> ascii ''Authorization''"
    by (simp add: ascii_def)
  have h: "headers ch =
      (case token (config ch) of
         None \<Rightarrow> [(ascii ''Content-Type'', ascii ''application/json'')]
       | Some t \<Rightarrow>
           if strip t \<noteq> []
           then [(ascii ''Content-Type'', ascii ''application/json''),
                 (ascii ''Authorization'', ascii ''Bearer '' @ strip t)]
           else [(ascii ''Content-Type'', ascii ''application/json'')])"
    using neq by (simp add: headers_def or_empty_def strip_Nil Let_def split: option.split)
  have a: "ascii ''Authorization'' \<in> fst ` set (headers ch)
        \<longleftrightarrow> (\<exists>t. token (config ch) = Some t \<and> strip t \<noteq> [])"
    using neq by (simp add: h split: option.split)
  have p: "session (snd (poll (recording server) ch w)) = session ch @ [poll_request ch w]"
    by (simp add: poll_def recording_def split: sum.split option.split)
  have s: "session (snd (send (recording server) ch r e)) = session ch @ [send_request ch r e]"
    by (simp add: send_def recording_def split: sum.split option.split)
  have q: "req_headers (poll_request ch w) = headers ch"
    "req_headers (send_request ch r e) = headers ch"
    by (simp_all add: poll_request_def send_request_def)
  from h a p s q show ?thesis by blast
qed

text \<open>
  C7 with the token \<open>" s3cret "\<close>, with a token of blanks, and for the request that
  \<open>send\<close> issues when no token is configured.
\<close>

theorem headers_exact_witness:
  "headers \<lparr>config = \<lparr>ip = ascii ''10.0.0.5:8080'', token = Some (ascii '' s3cret ''),
                        wait_sec = 30, timeout_sec = 35\<rparr>, session = ([]::request list)\<rparr>
     = [(ascii ''Content-Type'', ascii ''application/json''),
        (ascii ''Authorization'', ascii ''Bearer s3cret'')]
   \<and> headers \<lparr>config = \<lparr>ip = ascii ''10.0.0.5:8080'', token = Some (ascii ''  ''),
                        wait_sec = 30, timeout_sec = 35\<rparr>, session = ([]::request list)\<rparr>
     = [(ascii ''Content-Type'', ascii ''application/json'')]
   \<and> map req_headers (session (snd (send (recording (reply_with
          \<lparr>status_code = 200, resp_text = [], resp_json = Inl ValueError\<rparr>))
        \<lparr>config = \<lparr>ip = ascii ''10.0.0.5:8080'', token = None,
                        wait_sec = 30, timeout_sec = 35\<rparr>, session = ([]::request list)\<rparr> (ascii ''ok'') None)))
     = [[(ascii ''Content-Type'', ascii ''application/json'')]]"
proof -
  let ?a = "\<lparr>config = \<lparr>ip = ascii ''10.0.0.5:8080'', token = Some (ascii '' s3cret ''),
                        wait_sec = 30, timeout_sec = 35\<rparr>, session = ([]::request list)\<rparr>"
  let ?b = "\<lparr>config = \<lparr>ip = ascii ''10.0.0.5:8080'', token = Some (ascii ''  ''),
                        wait_sec = 30, timeout_sec = 35\<rparr>, session = ([]::request list)\<rparr>"
  let ?c = "\<lparr>config = \<lparr>ip = ascii ''10.0.0.5:8080'', token = None,
                        wait_sec = 30, timeout_sec = 35\<rparr>, session = ([]::request list)\<rparr>"
  let ?srv = "reply_with \<lparr>status_code = 200, resp_text = [], resp_json = Inl ValueError\<rparr>"
  have sa: "strip (ascii '' s3cret '') = ascii ''s3cret''"
    by (simp add: strip_def isspace_def ascii_def)
  have sb: "strip (ascii ''  '') = []"
    by (simp add: strip_def isspace_def ascii_def)
  have 1: "headers ?a = [(ascii ''Content-Type'', ascii ''application/json''),
        (ascii ''Authorization'', ascii ''Bearer s3cret'')]"
    using headers_exact [of ?a] by (simp add: sa) (simp add: ascii_def)
  have 2: "headers ?b = [(ascii ''Content-Type'', ascii ''application/json'')]"
    using headers_exact [of ?b] by (simp add: sb)
  have 3: "map req_headers (session (snd (send (recording ?srv) ?c (ascii ''ok'') None)))
     = [[(ascii ''Content-Type'', ascii ''application/json'')]]"
    using headers_exact [of ?c ?srv _ "ascii ''ok''" None] by simp
  from 1 2 3 show ?thesis by blast
qed


section \<open>HTTP status errors\<close>

text \<open>
  Claim C3, as amended. When the transport delivers a response whose status code is from
  400 to 599, \<open>poll\<close> and \<open>send\<close> fail with the \<open>HTTPError\<close> that carries the response
  (its status code and its body) and return no result. For every other status code they
  go on to the body as they do for a 2xx response: \<open>raise_for_status\<close> lets the 1xx and
  3xx codes pass.
\<close>

theorem http_error_status:
  "(http (session ch) (poll_request ch w) = (Inr resp, s')
      \<longrightarrow> (400 \<le> status_code resp \<and> status_code resp < 600
             \<longrightarrow> fst (poll http ch w) = Inl (HTTPError resp))
        \<and> (\<not> (400 \<le> status_code resp \<and> status_code resp < 600)
             \<longrightarrow> fst (poll http ch w)
                   = (case safe_json resp of Inl e \<Rightarrow> Inl e | Inr p \<Rightarrow> Inr (poll_result p))))
   \<and> (http (session ch) (send_request ch r e) = (Inr resp, s')
      \<longrightarrow> (400 \<le> status_code resp \<and> status_code resp < 600
             \<longrightarrow> fst (send http ch r e) = Inl (HTTPError resp))
        \<and> (\<not> (400 \<le> status_code resp \<and> status_code resp < 600)
             \<longrightarrow> fst (send http ch r e) = safe_json resp))"
  by (simp add: poll_ok poll_error send_ok send_error)

text \<open>The amended C3 at a 500 response to \<open>poll\<close> and a 404 response to \<open>send\<close>.\<close>

theorem http_error_status_witness:
  "fst (poll (recording (reply_with \<lparr>status_code = 500, resp_text = ascii ''boom'', resp_json = Inl ValueError\<rparr>))
         \<lparr>config = \<lparr>ip = ascii ''10.0.0.5:8080'', token = None, wait_sec = 30, timeout_sec = 35\<rparr>,
          session = []\<rparr> None)
     = Inl (HTTPError \<lparr>status_code = 500, resp_text = ascii ''boom'', resp_json = Inl ValueError\<rparr>)
   \<and> fst (send (recording (reply_with \<lparr>status_code = 404, resp_text = ascii ''gone'', resp_json = Inl ValueError\<rparr>))
         \<lparr>config = \<lparr>ip = ascii ''10.0.0.5:8080'', token = None, wait_sec = 30, timeout_sec = 35\<rparr>,
          session = []\<rparr> (ascii ''hello'') None)
     = Inl (HTTPError \<lparr>status_code = 404, resp_text = ascii ''gone'', resp_json = Inl ValueError\<rparr>)"
proof -
  let ?ch = "\<lparr>config = \<lparr>ip = ascii ''10.0.0.5:8080'', token = None, wait_sec = 30, timeout_sec = 35\<rparr>,
          session = ([]::request list)\<rparr>"
  let ?r5 = "\<lparr>status_code = 500, resp_text = ascii ''boom'', resp_json = Inl ValueError\<rparr>"
  let ?r4 = "\<lparr>status_code = 404, resp_text = ascii ''gone'', resp_json = Inl ValueError\<rparr>"
  have p: "recording (reply_with ?r5) (session ?ch) (poll_request ?ch None)
             = (Inr ?r5, [poll_request ?ch None])"
    by (simp add: recording_def reply_with_def)
  have s: "recording (reply_with ?r4) (session ?ch) (send_request ?ch (ascii ''hello'') None)
             = (Inr ?r4, [send_request ?ch (ascii ''hello'') None])"
    by (simp add: recording_def reply_with_def)
  have c5: "400 \<le> status_code ?r5 \<and> status_code ?r5 < 600" by simp
  have c4: "400 \<le> status_code ?r4 \<and> status_code ?r4 < 600" by simp
  from p c5 http_error_status [of "recording (reply_with ?r5)" ?ch None ?r5]
  have 1: "fst (poll (recording (reply_with ?r5)) ?ch None) = Inl (HTTPError ?r5)" by blast
  from s c4 http_error_status [of "recording (reply_with ?r4)" ?ch _ ?r4 _ "ascii ''hello''" None]
  have 2: "fst (send (recording (reply_with ?r4)) ?ch (ascii ''hello'') None) = Inl (HTTPError ?r4)"
    by blast
  from 1 2 show ?thesis by blast
qed

text \<open>
  Claim C3 as stated is false: 304 is not a 2xx status code, and on a 304 response with an
  empty body \<open>poll\<close> returns \<open>None\<close> and \<open>send\<close> returns \<open>{}\<close> instead of raising.
\<close>

theorem http_error_status_counterexample:
  "\<not> (200 \<le> (304::int) \<and> (304::int) < 300)
   \<and> fst (poll (recording (reply_with \<lparr>status_code = 304, resp_text = [], resp_json = Inl ValueError\<rparr>))
         \<lparr>config = \<lparr>ip = ascii ''10.0.0.5:8080'', token = None, wait_sec = 30, timeout_sec = 35\<rparr>,
          session = []\<rparr> None)
     = Inr None
   \<and> fst (send (recording (reply_with \<lparr>status_code = 304, resp_text = [], resp_json = Inl ValueError\<rparr>))
         \<lparr>config = \<lparr>ip = ascii ''10.0.0.5:8080'', token = None, wait_sec = 30, timeout_sec = 35\<rparr>,
          session = []\<rparr> (ascii ''hello'') None)
     = Inr []"
  by (simp add: poll_def send_def recording_def reply_with_def raise_for_status_def
      safe_json_def poll_result_def strip_def)


section \<open>Facts about the payload of poll\<close>

lemma poll_2xx:
  assumes "http (session ch) (poll_request ch w) = (Inr resp, s')"
    and "200 \<le> status_code resp" and "status_code resp < 300"
    and "safe_json resp = Inr p"
  shows "fst (poll http ch w) = Inr (poll_result p)"
proof -
  from assms(2,3) have "\<not> (400 \<le> status_code resp \<and> status_code resp < 600)" by simp
  with assms(1,4) show ?thesis by (simp add: poll_ok)
qed

lemma key_distinct:
  "ascii ''message'' \<noteq> ascii ''messages''"
  "ascii ''text'' \<noteq> ascii ''messages''"
  "ascii ''text'' \<noteq> ascii ''raw''"
  "ascii ''messages'' \<noteq> ascii ''raw''"
  by (simp_all add: ascii_def)

lemma poll_result_Nil: "poll_result [] = None"
  by (simp add: poll_result_def)

lemma poll_result_message:
  assumes "truthy (dict_get p (ascii ''message''))"
  shows "poll_result p = Some [(ascii ''text'', dict_get p (ascii ''message'')),
                               (ascii ''messages'', dict_get p (ascii ''messages'')),
                               (ascii ''raw'', PDict p)]"
proof -
  from assms have "p \<noteq> []" by (auto simp: dict_get_def)
  with assms show ?thesis by (simp add: poll_result_def)
qed

text \<open>The fallback: what \<open>poll\<close> makes of a payload whose \<open>message\<close> is not truthy.\<close>

lemma poll_result_fallback:
  assumes "\<not> truthy (dict_get p (ascii ''message''))" and "p \<noteq> []"
  shows "poll_result p =
     (case dict_get p (ascii ''messages'') of
        PList xs \<Rightarrow>
          if xs = [] then None
          else (case last xs of
                  PDict d \<Rightarrow>
                    if truthy (dict_get d (ascii ''content''))
                    then Some [(ascii ''text'', dict_get d (ascii ''content'')),
                               (ascii ''messages'', PList xs),
                               (ascii ''raw'', PDict p)]
                    else None
                | _ \<Rightarrow> None)
      | _ \<Rightarrow> None)"
  using assms by (simp add: poll_result_def split: pyval.split)


section \<open>Polling\<close>

text \<open>
  Claim C6. When the body of a 2xx response to \<open>poll\<close> is empty after trimming, or
  decodes to the empty mapping \<open>{}\<close>, \<open>poll\<close> returns \<open>None\<close> and raises nothing.
\<close>

theorem poll_empty_payload:
  assumes "http (session ch) (poll_request ch w) = (Inr resp, s')"
    and "200 \<le> status_code resp" and "status_code resp < 300"
    and "strip (resp_text resp) = [] \<or> resp_json resp = Inr (PDict [])"
  shows "fst (poll http ch w) = Inr None"
proof -
  from assms(4) have "safe_json resp = Inr []" by (auto simp: safe_json_def)
  with poll_2xx [of http ch w resp s' "[]"] assms(1-3) show ?thesis
    by (simp add: poll_result_Nil)
qed

text \<open>C6 at a body of two blanks and at the body \<open>{}\<close>.\<close>

theorem poll_empty_payload_witness:
  "fst (poll (recording (reply_with \<lparr>status_code = 200, resp_text = ascii ''  '', resp_json = Inl ValueError\<rparr>))
         \<lparr>config = \<lparr>ip = ascii ''10.0.0.5:8080'', token = None, wait_sec = 30, timeout_sec = 35\<rparr>,
          session = []\<rparr> None) = Inr None
   \<and> fst (poll (recording (reply_with
            \<lparr>status_code = 204, resp_text = ascii ''{}'', resp_json = Inr (PDict [])\<rparr>))
         \<lparr>config = \<lparr>ip = ascii ''10.0.0.5:8080'', token = None, wait_sec = 30, timeout_sec = 35\<rparr>,
          session = []\<rparr> (Some 5)) = Inr None"
proof -
  let ?ch = "\<lparr>config = \<lparr>ip = ascii ''10.0.0.5:8080'', token = None, wait_sec = 30, timeout_sec = 35\<rparr>,
          session = ([]::request list)\<rparr>"
  let ?a = "\<lparr>status_code = 200, resp_text = ascii ''  '', resp_json = Inl ValueError\<rparr>"
  let ?b = "\<lparr>status_code = 204, resp_text = ascii ''{}'', resp_json = Inr (PDict [])\<rparr>"
  have ta: "recording (reply_with ?a) (session ?ch) (poll_request ?ch None)
              = (Inr ?a, [poll_request ?ch None])"
    by (simp add: recording_def reply_with_def)
  have tb: "recording (reply_with ?b) (session ?ch) (poll_request ?ch (Some 5))
              = (Inr ?b, [poll_request ?ch (Some 5)])"
    by (simp add: recording_def reply_with_def)
  have ea: "strip (resp_text ?a) = [] \<or> resp_json ?a = Inr (PDict [])"
    by (simp add: strip_def isspace_def ascii_def)
  have eb: "strip (resp_text ?b) = [] \<or> resp_json ?b = Inr (PDict [])"
    by simp
  have 1: "fst (poll (recording (reply_with ?a)) ?ch None) = Inr None"
    using ta ea poll_empty_payload [of "recording (reply_with ?a)" ?ch None ?a] by simp
  have 2: "fst (poll (recording (reply_with ?b)) ?ch (Some 5)) = Inr None"
    using tb eb poll_empty_payload [of "recording (reply_with ?b)" ?ch "Some 5" ?b] by simp
  from 1 2 show ?thesis by blast
qed

text \<open>
  Claim C2. For a 2xx response to \<open>poll\<close> with payload \<open>p\<close>: a truthy \<open>message\<close> field is
  the text of the result. If \<open>message\<close> is absent and \<open>messages\<close> is a list that is not
  empty and whose last element is a mapping, the \<open>content\<close> of that element is the text,
  and the result is \<open>None\<close> when that content is not truthy. If \<open>message\<close> is absent and
  \<open>messages\<close> is the empty list, or its last element is not a mapping, or that mapping has
  no \<open>content\<close>, the result is \<open>None\<close>. The payload
  \<open>{"messages": [{"content": "a"}, {"content": "b"}]}\<close> yields \<open>b\<close> as its text.
\<close>

theorem poll_message_extraction:
  assumes "http (session ch) (poll_request ch w) = (Inr resp, s')"
    and "200 \<le> status_code resp" and "status_code resp < 300"
    and "safe_json resp = Inr p"
  shows
    "(truthy (dict_get p (ascii ''message''))
        \<longrightarrow> fst (poll http ch w)
              = Inr (Some [(ascii ''text'', dict_get p (ascii ''message'')),
                           (ascii ''messages'', dict_get p (ascii ''messages'')),
                           (ascii ''raw'', PDict p)]))
     \<and> (map_of p (ascii ''message'') = None \<and> map_of p (ascii ''messages'') = Some (PList xs)
          \<and> xs \<noteq> [] \<and> last xs = PDict d
        \<longrightarrow> fst (poll http ch w)
              = Inr (if truthy (dict_get d (ascii ''content''))
                     then Some [(ascii ''text'', dict_get d (ascii ''content'')),
                                (ascii ''messages'', PList xs),
                                (ascii ''raw'', PDict p)]
                     else None))
     \<and> (map_of p (ascii ''message'') = None \<and> map_of p (ascii ''messages'') = Some (PList xs)
          \<and> (xs = []
              \<or> (xs \<noteq> [] \<and> \<not> isinstance_dict (last xs))
              \<or> (xs \<noteq> [] \<and> last xs = PDict d \<and> map_of d (ascii ''content'') = None))
        \<longrightarrow> fst (poll http ch w) = Inr None)
     \<and> (p = [(ascii ''messages'', PList [PDict [(ascii ''content'', PStr (ascii ''a''))],
                                             PDict [(ascii ''content'', PStr (ascii ''b''))]])]
        \<longrightarrow> fst (poll http ch w)
              = Inr (Some [(ascii ''text'', PStr (ascii ''b'')),
                           (ascii ''messages'', PList [PDict [(ascii ''content'', PStr (ascii ''a''))],
                                                       PDict [(ascii ''content'', PStr (ascii ''b''))]]),
                           (ascii ''raw'', PDict p)]))"
proof -
  have r: "fst (poll http ch w) = Inr (poll_result p)"
    using poll_2xx [of http ch w resp s' p] assms by simp
  have a: "truthy (dict_get p (ascii ''message''))
        \<Longrightarrow> poll_result p = Some [(ascii ''text'', dict_get p (ascii ''message'')),
                           (ascii ''messages'', dict_get p (ascii ''messages'')),
                           (ascii ''raw'', PDict p)]"
    by (rule poll_result_message)
  have b: "poll_result p = (if truthy (dict_get d (ascii ''content''))
                     then Some [(ascii ''text'', dict_get d (ascii ''content'')),
                                (ascii ''messages'', PList xs),
                                (ascii ''raw'', PDict p)]
                     else None)"
    if "map_of p (ascii ''message'') = None" "map_of p (ascii ''messages'') = Some (PList xs)"
      "xs \<noteq> []" "last xs = PDict d"
  proof -
    from that(2) have ne: "p \<noteq> []" by auto
    from that(1) have nm: "\<not> truthy (dict_get p (ascii ''message''))" by (simp add: dict_get_def)
    from that(2) have ms: "dict_get p (ascii ''messages'') = PList xs" by (simp add: dict_get_def)
    show ?thesis using that(3,4) by (simp add: poll_result_fallback [OF nm ne] ms)
  qed
  have c: "poll_result p = None"
    if "map_of p (ascii ''message'') = None" "map_of p (ascii ''messages'') = Some (PList xs)"
      "xs = [] \<or> (xs \<noteq> [] \<and> \<not> isinstance_dict (last xs))
        \<or> (xs \<noteq> [] \<and> last xs = PDict d \<and> map_of d (ascii ''content'') = None)"
  proof -
    from that(2) have ne: "p \<noteq> []" by auto
    from that(1) have nm: "\<not> truthy (dict_get p (ascii ''message''))" by (simp add: dict_get_def)
    from that(2) have ms: "dict_get p (ascii ''messages'') = PList xs" by (simp add: dict_get_def)
    have f: "poll_result p =
        (if xs = [] then None
         else (case last xs of
                 PDict d' \<Rightarrow>
                   if truthy (dict_get d' (ascii ''content''))
                   then Some [(ascii ''text'', dict_get d' (ascii ''content'')),
                              (ascii ''messages'', PList xs),
                              (ascii ''raw'', PDict p)]
                   else None
               | _ \<Rightarrow> None))"
      by (simp add: poll_result_fallback [OF nm ne] ms)
    from that(3) consider (empty) "xs = []"
      | (other) "xs \<noteq> []" "\<not> isinstance_dict (last xs)"
      | (lacks) "xs \<noteq> []" "last xs = PDict d" "map_of d (ascii ''content'') = None"
      by auto
    then show ?thesis
    proof cases
      case empty
      then show ?thesis by (simp add: f)
    next
      case other
      then show ?thesis by (cases "last xs") (simp_all add: f)
    next
      case lacks
      then show ?thesis by (simp add: f dict_get_def)
    qed
  qed
  have e: "poll_result p = Some [(ascii ''text'', PStr (ascii ''b'')),
                           (ascii ''messages'', PList [PDict [(ascii ''content'', PStr (ascii ''a''))],
                                                       PDict [(ascii ''content'', PStr (ascii ''b''))]]),
                           (ascii ''raw'', PDict p)]"
    if "p = [(ascii ''messages'', PList [PDict [(ascii ''content'', PStr (ascii ''a''))],
                                             PDict [(ascii ''content'', PStr (ascii ''b''))]])]"
    using that by (simp add: poll_result_def dict_get_def ascii_def Let_def)
  from r a b c e show ?thesis by simp
qed

text \<open>
  C2 at the payloads \<open>{"message": "hi"}\<close>,
  \<open>{"messages": [{"content": "a"}, {"content": "b"}]}\<close> and \<open>{"messages": [7]}\<close>.
\<close>

theorem poll_message_extraction_witness:
  "fst (poll (recording (reply_with \<lparr>status_code = 200, resp_text = ascii ''{...}'',
              resp_json = Inr (PDict [(ascii ''message'', PStr (ascii ''hi''))])\<rparr>))
         \<lparr>config = \<lparr>ip = ascii ''10.0.0.5:8080'', token = None, wait_sec = 30, timeout_sec = 35\<rparr>,
          session = []\<rparr> None)
     = Inr (Some [(ascii ''text'', PStr (ascii ''hi'')),
                  (ascii ''messages'', PNone),
                  (ascii ''raw'', PDict [(ascii ''message'', PStr (ascii ''hi''))])])
   \<and> fst (poll (recording (reply_with \<lparr>status_code = 200, resp_text = ascii ''{...}'',
              resp_json = Inr (PDict [(ascii ''messages'',
                 PList [PDict [(ascii ''content'', PStr (ascii ''a''))],
                        PDict [(ascii ''content'', PStr (ascii ''b''))]])])\<rparr>))
         \<lparr>config = \<lparr>ip = ascii ''10.0.0.5:8080'', token = None, wait_sec = 30, timeout_sec = 35\<rparr>,
          session = []\<rparr> None)
     = Inr (Some [(ascii ''text'', PStr (ascii ''b'')),
                  (ascii ''messages'', PList [PDict [(ascii ''content'', PStr (ascii ''a''))],
                                              PDict [(ascii ''content'', PStr (ascii ''b''))]]),
                  (ascii ''raw'', PDict [(ascii ''messages'',
                     PList [PDict [(ascii ''content'', PStr (ascii ''a''))],
                            PDict [(ascii ''content'', PStr (ascii ''b''))]])])])
   \<and> fst (poll (recording (reply_with \<lparr>status_code = 200, resp_text = ascii ''{...}'',
              resp_json = Inr (PDict [(ascii ''messages'', PList [PInt 7])])\<rparr>))
         \<lparr>config = \<lparr>ip = ascii ''10.0.0.5:8080'', token = None, wait_sec = 30, timeout_sec = 35\<rparr>,
          session = []\<rparr> None)
     = Inr None"
proof -
  let ?ch = "\<lparr>config = \<lparr>ip = ascii ''10.0.0.5:8080'', token = None, wait_sec = 30, timeout_sec = 35\<rparr>,
          session = ([]::request list)\<rparr>"
  let ?pa = "[(ascii ''message'', PStr (ascii ''hi''))]"
  let ?ms = "[PDict [(ascii ''content'', PStr (ascii ''a''))],
              PDict [(ascii ''content'', PStr (ascii ''b''))]]"
  let ?pb = "[(ascii ''messages'', PList ?ms)]"
  let ?pc = "[(ascii ''messages'', PList [PInt 7])]"
  let ?a = "\<lparr>status_code = 200, resp_text = ascii ''{...}'', resp_json = Inr (PDict ?pa)\<rparr>"
  let ?b = "\<lparr>status_code = 200, resp_text = ascii ''{...}'', resp_json = Inr (PDict ?pb)\<rparr>"
  let ?c = "\<lparr>status_code = 200, resp_text = ascii ''{...}'', resp_json = Inr (PDict ?pc)\<rparr>"
  have ne: "strip (ascii ''{...}'') \<noteq> []"
    by (simp add: strip_def isspace_def ascii_def)
  have ja: "safe_json ?a = Inr ?pa" and jb: "safe_json ?b = Inr ?pb"
    and jc: "safe_json ?c = Inr ?pc"
    using ne by (simp_all add: safe_json_def)
  have ta: "recording (reply_with ?a) (session ?ch) (poll_request ?ch None)
              = (Inr ?a, [poll_request ?ch None])"
    and tb: "recording (reply_with ?b) (session ?ch) (poll_request ?ch None)
              = (Inr ?b, [poll_request ?ch None])"
    and tc: "recording (reply_with ?c) (session ?ch) (poll_request ?ch None)
              = (Inr ?c, [poll_request ?ch None])"
    by (simp_all add: recording_def reply_with_def)
  have ha: "truthy (dict_get ?pa (ascii ''message''))"
    and da: "dict_get ?pa (ascii ''message'') = PStr (ascii ''hi'')"
      "dict_get ?pa (ascii ''messages'') = PNone"
    by (simp_all add: dict_get_def ascii_def)
  have hc: "map_of ?pc (ascii ''message'') = None"
    "map_of ?pc (ascii ''messages'') = Some (PList [PInt 7])"
    "\<not> isinstance_dict (last [PInt 7])"
    by (simp_all add: ascii_def)
  have 1: "fst (poll (recording (reply_with ?a)) ?ch None)
     = Inr (Some [(ascii ''text'', PStr (ascii ''hi'')), (ascii ''messages'', PNone),
                  (ascii ''raw'', PDict ?pa)])"
    using poll_message_extraction [of "recording (reply_with ?a)" ?ch None ?a _ ?pa] ta ja ha da
    by simp
  have 2: "fst (poll (recording (reply_with ?b)) ?ch None)
     = Inr (Some [(ascii ''text'', PStr (ascii ''b'')), (ascii ''messages'', PList ?ms),
                  (ascii ''raw'', PDict ?pb)])"
    using poll_message_extraction [of "recording (reply_with ?b)" ?ch None ?b _ ?pb] tb jb
    by simp
  have 3: "fst (poll (recording (reply_with ?c)) ?ch None) = Inr None"
    using poll_message_extraction [of "recording (reply_with ?c)" ?ch None ?c _ ?pc "[PInt 7]"]
      tc jc hc
    by simp
  from 1 2 3 show ?thesis by blast
qed

lemma map_of_filter_key:
  "map_of (filter (\<lambda>kv. fst kv \<noteq> k) p) k' = (if k' = k then None else map_of p k')"
  by (induction p) auto

lemma dict_get_filter_key:
  "dict_get (filter (\<lambda>kv. fst kv \<noteq> k) p) k' = (if k' = k then PNone else dict_get p k')"
  by (simp add: dict_get_def map_of_filter_key)

text \<open>
  Claim C10. \<open>poll\<close> tests the message for truth, not for presence. For a 2xx response
  whose \<open>message\<close> field is the empty string, \<open>poll\<close> falls back to \<open>messages\<close>: the
  text is the truthy \<open>content\<close> of the last element when \<open>messages\<close> is a list that is
  not empty and that element is a mapping, and the result is \<open>None\<close> in every other case.
  This is the result for the payload without the \<open>message\<close> key, but for \<open>raw\<close>, which
  is the payload as received.
\<close>

theorem poll_falsy_message:
  assumes "http (session ch) (poll_request ch w) = (Inr resp, s')"
    and "200 \<le> status_code resp" and "status_code resp < 300"
    and "safe_json resp = Inr p"
    and "map_of p (ascii ''message'') = Some (PStr [])"
  shows
    "fst (poll http ch w) =
       Inr (case dict_get p (ascii ''messages'') of
              PList xs \<Rightarrow>
                if xs = [] then None
                else (case last xs of
                        PDict d \<Rightarrow>
                          if truthy (dict_get d (ascii ''content''))
                          then Some [(ascii ''text'', dict_get d (ascii ''content'')),
                                     (ascii ''messages'', PList xs),
                                     (ascii ''raw'', PDict p)]
                          else None
                      | _ \<Rightarrow> None)
            | _ \<Rightarrow> None)
     \<and> poll_result p =
         map_option (\<lambda>r. dict_set r (ascii ''raw'') (PDict p))
           (poll_result (filter (\<lambda>kv. fst kv \<noteq> ascii ''message'') p))"
proof -
  let ?q = "filter (\<lambda>kv. fst kv \<noteq> ascii ''message'') p"
  have r: "fst (poll http ch w) = Inr (poll_result p)"
    using poll_2xx [of http ch w resp s' p] assms(1-4) by simp
  from assms(5) have ne: "p \<noteq> []" by auto
  from assms(5) have nm: "\<not> truthy (dict_get p (ascii ''message''))"
    by (simp add: dict_get_def)
  note f = poll_result_fallback [OF nm ne]
  have qm: "\<not> truthy (dict_get ?q (ascii ''message''))"
    by (simp add: dict_get_filter_key)
  have qs: "dict_get ?q (ascii ''messages'') = dict_get p (ascii ''messages'')"
    using key_distinct(1) by (simp add: dict_get_filter_key)
  have "poll_result p = map_option (\<lambda>r. dict_set r (ascii ''raw'') (PDict p)) (poll_result ?q)"
  proof (cases "?q = []")
    case True
    then have "dict_get ?q (ascii ''messages'') = PNone" by (simp add: dict_get_def)
    with qs have "dict_get p (ascii ''messages'') = PNone" by simp
    with True show ?thesis by (simp add: f poll_result_Nil)
  next
    case False
    show ?thesis
      using key_distinct
      by (simp add: f poll_result_fallback [OF qm False] qs split: pyval.split)
  qed
  with r f show ?thesis by simp
qed

text \<open>
  C10 at the payloads \<open>{"message": ""}\<close>, \<open>{"message": "", "messages": [{"content": 0}]}\<close>
  and \<open>{"message": "", "messages": [{"content": "x"}]}\<close>.
\<close>

theorem poll_falsy_message_witness:
  "fst (poll (recording (reply_with \<lparr>status_code = 200, resp_text = ascii ''{...}'',
              resp_json = Inr (PDict [(ascii ''message'', PStr [])])\<rparr>))
         \<lparr>config = \<lparr>ip = ascii ''10.0.0.5:8080'', token = None, wait_sec = 30, timeout_sec = 35\<rparr>,
          session = []\<rparr> None)
     = Inr None
   \<and> fst (poll (recording (reply_with \<lparr>status_code = 200, resp_text = ascii ''{...}'',
              resp_json = Inr (PDict [(ascii ''message'', PStr []),
                 (ascii ''messages'', PList [PDict [(ascii ''content'', PInt 0)]])])\<rparr>))
         \<lparr>config = \<lparr>ip = ascii ''10.0.0.5:8080'', token = None, wait_sec = 30, timeout_sec = 35\<rparr>,
          session = []\<rparr> None)
     = Inr None
   \<and> fst (poll (recording (reply_with \<lparr>status_code = 200, resp_text = ascii ''{...}'',
              resp_json = Inr (PDict [(ascii ''message'', PStr []),
                 (ascii ''messages'', PList [PDict [(ascii ''content'', PStr (ascii ''x''))]])])\<rparr>))
         \<lparr>config = \<lparr>ip = ascii ''10.0.0.5:8080'', token = None, wait_sec = 30, timeout_sec = 35\<rparr>,
          session = []\<rparr> None)
     = Inr (Some [(ascii ''text'', PStr (ascii ''x'')),
                  (ascii ''messages'', PList [PDict [(ascii ''content'', PStr (ascii ''x''))]]),
                  (ascii ''raw'', PDict [(ascii ''message'', PStr []),
                     (ascii ''messages'', PList [PDict [(ascii ''content'', PStr (ascii ''x''))]])])])"
proof -
  let ?ch = "\<lparr>config = \<lparr>ip = ascii ''10.0.0.5:8080'', token = None, wait_sec = 30, timeout_sec = 35\<rparr>,
          session = ([]::request list)\<rparr>"
  let ?pa = "[(ascii ''message'', PStr [])]"
  let ?pb = "[(ascii ''message'', PStr []),
              (ascii ''messages'', PList [PDict [(ascii ''content'', PInt 0)]])]"
  let ?pc = "[(ascii ''message'', PStr []),
              (ascii ''messages'', PList [PDict [(ascii ''content'', PStr (ascii ''x''))]])]"
  let ?a = "\<lparr>status_code = 200, resp_text = ascii ''{...}'', resp_json = Inr (PDict ?pa)\<rparr>"
  let ?b = "\<lparr>status_code = 200, resp_text = ascii ''{...}'', resp_json = Inr (PDict ?pb)\<rparr>"
  let ?c = "\<lparr>status_code = 200, resp_text = ascii ''{...}'', resp_json = Inr (PDict ?pc)\<rparr>"
  have ne: "strip (ascii ''{...}'') \<noteq> []"
    by (simp add: strip_def isspace_def ascii_def)
  have ja: "safe_json ?a = Inr ?pa" and jb: "safe_json ?b = Inr ?pb"
    and jc: "safe_json ?c = Inr ?pc"
    using ne by (simp_all add: safe_json_def)
  have ta: "recording (reply_with ?a) (session ?ch) (poll_request ?ch None)
              = (Inr ?a, [poll_request ?ch None])"
    and tb: "recording (reply_with ?b) (session ?ch) (poll_request ?ch None)
              = (Inr ?b, [poll_request ?ch None])"
    and tc: "recording (reply_with ?c) (session ?ch) (poll_request ?ch None)
              = (Inr ?c, [poll_request ?ch None])"
    by (simp_all add: recording_def reply_with_def)
  have ma: "map_of ?pa (ascii ''message'') = Some (PStr [])"
    and mb: "map_of ?pb (ascii ''message'') = Some (PStr [])"
    and mc: "map_of ?pc (ascii ''message'') = Some (PStr [])"
    by simp_all
  have ga: "dict_get ?pa (ascii ''messages'') = PNone"
    and gb: "dict_get ?pb (ascii ''messages'') = PList [PDict [(ascii ''content'', PInt 0)]]"
    and gc: "dict_get ?pc (ascii ''messages'') = PList [PDict [(ascii ''content'', PStr (ascii ''x''))]]"
    by (simp_all add: dict_get_def ascii_def)
  have cb: "dict_get [(ascii ''content'', PInt 0)] (ascii ''content'') = PInt 0"
    and cc: "dict_get [(ascii ''content'', PStr (ascii ''x''))] (ascii ''content'') = PStr (ascii ''x'')"
    by (simp_all add: dict_get_def)
  have x: "ascii ''x'' \<noteq> []" by (simp add: ascii_def)
  have 1: "fst (poll (recording (reply_with ?a)) ?ch None) = Inr None"
    using poll_falsy_message [of "recording (reply_with ?a)" ?ch None ?a _ ?pa] ta ja ma
    by (simp add: ga)
  have 2: "fst (poll (recording (reply_with ?b)) ?ch None) = Inr None"
    using poll_falsy_message [of "recording (reply_with ?b)" ?ch None ?b _ ?pb] tb jb mb
    by (simp add: gb cb)
  have 3: "fst (poll (recording (reply_with ?c)) ?ch None)
     = Inr (Some [(ascii ''text'', PStr (ascii ''x'')),
                  (ascii ''messages'', PList [PDict [(ascii ''content'', PStr (ascii ''x''))]]),
                  (ascii ''raw'', PDict ?pc)])"
    using poll_falsy_message [of "recording (reply_with ?c)" ?ch None ?c _ ?pc] tc jc mc x
    by (simp add: gc cc)
  from 1 2 3 show ?thesis by blast
qed


section \<open>The configuration is left alone\<close>

lemma poll_config: "config (snd (poll http ch w)) = config ch"
  by (simp add: poll_def split: prod.split sum.split option.split)

lemma send_config: "config (snd (send http ch r e)) = config ch"
  by (simp add: send_def split: prod.split sum.split option.split)

text \<open>
  Claim C9. No call changes the configuration: after \<open>poll\<close>, after \<open>send\<close>, and after
  any sequence of such calls, whatever the transport answers, the address, the token, the
  default wait and the timeout of the channel are what they were.
\<close>

theorem config_never_mutated:
  "config (run_calls http ch cs) = config ch
   \<and> config (snd (poll http ch w)) = config ch
   \<and> config (snd (send http ch r e)) = config ch"
proof -
  have "config (run_calls http ch cs) = config ch"
  proof (induction cs arbitrary: ch)
    case Nil
    show ?case by simp
  next
    case (Cons c cs)
    show ?case
    proof (cases c)
      case (Poll w')
      then show ?thesis using Cons.IH [of "snd (poll http ch w')"] by (simp add: poll_config)
    next
      case (Send r' e')
      then show ?thesis using Cons.IH [of "snd (send http ch r' e')"] by (simp add: send_config)
    qed
  qed
  then show ?thesis by (simp add: poll_config send_config)
qed


section \<open>Facts about the JSON encoding\<close>

lemma escape_char_plain: "32 \<le> c \<Longrightarrow> c \<noteq> 34 \<Longrightarrow> c \<noteq> 92 \<Longrightarrow> escape_char c = [c]"
  by (simp add: escape_char_def)

lemma encode_str_plain:
  assumes "\<forall>c\<in>set s. 32 \<le> c \<and> c \<noteq> 34 \<and> c \<noteq> 92"
  shows "encode_str s = quoted s"
proof -
  from assms have "concat (map escape_char s) = s"
    by (induction s) (simp_all add: escape_char_plain)
  then show ?thesis by (simp add: encode_str_def quoted_def)
qed

lemma hexdigit_table: "n < 16 \<Longrightarrow> hexdigit n = ascii ''0123456789abcdef'' ! n"
proof -
  assume n: "n < 16"
  have t: "ascii ''0123456789abcdef''
            = [48, 49, 50, 51, 52, 53, 54, 55, 56, 57, 97, 98, 99, 100, 101, 102]"
    by (simp add: ascii_def)
  from n show ?thesis
    unfolding t hexdigit_def by (simp add: nth_Cons')
qed

lemma hexdigit_ascii: "n < 16 \<Longrightarrow> hexdigit n < 128"
  by (simp add: hexdigit_def)

lemma filter_escape_char:
  "filter (\<lambda>c. 128 \<le> c) (escape_char c) = (if 128 \<le> c then [c] else [])"
proof (cases "c < 32")
  case True
  then have "c div 16 < 16" "c mod 16 < 16" by simp_all
  then have "hexdigit (c div 16) < 128" "hexdigit (c mod 16) < 128"
    by (simp_all add: hexdigit_ascii)
  with True show ?thesis by (simp add: escape_char_def)
next
  case False
  then show ?thesis by (simp add: escape_char_def)
qed

lemma filter_encode_str:
  "filter (\<lambda>c. 128 \<le> c) (encode_str s) = filter (\<lambda>c. 128 \<le> c) s"
proof -
  have "filter (\<lambda>c. 128 \<le> c) (concat (map escape_char s)) = filter (\<lambda>c. 128 \<le> c) s"
    by (induction s) (simp_all add: filter_escape_char)
  then show ?thesis by (simp add: encode_str_def)
qed

lemma send_body_eq:
  "send_body reply emoji =
     (case emoji of
        None \<Rightarrow> [(ascii ''reply'', reply)]
      | Some e \<Rightarrow> if e \<noteq> [] then [(ascii ''reply'', reply), (ascii ''emoji'', e)]
                  else [(ascii ''reply'', reply)])"
proof -
  have "ascii ''reply'' \<noteq> ascii ''emoji''" by (simp add: ascii_def)
  then show ?thesis by (simp add: send_body_def split: option.split)
qed

lemma encode_reply_key: "encode_str (ascii ''reply'') = quoted (ascii ''reply'')"
  by (rule encode_str_plain) (simp add: ascii_def)

lemma encode_emoji_key: "encode_str (ascii ''emoji'') = quoted (ascii ''emoji'')"
  by (rule encode_str_plain) (simp add: ascii_def)

lemma json_dumps_send_body:
  "json_dumps (send_body reply emoji) =
     ascii ''{'' @ quoted (ascii ''reply'') @ ascii '': '' @ encode_str reply
       @ (case emoji of
            None \<Rightarrow> []
          | Some e \<Rightarrow> if e \<noteq> []
                      then ascii '', '' @ quoted (ascii ''emoji'') @ ascii '': '' @ encode_str e
                      else [])
       @ ascii ''}''"
proof -
  have a: "ascii ''{'' = [123]" "ascii ''}'' = [125]" "ascii '': '' = [58, 32]"
    "ascii '', '' = [44, 32]"
    by (simp_all add: ascii_def)
  show ?thesis
    by (simp add: send_body_eq json_dumps_def encode_member_def encode_reply_key
        encode_emoji_key a split: option.split)
qed

lemma hexval_hexdigit: "n < 16 \<Longrightarrow> hexval (hexdigit n) = Some n"
  by (simp add: hexval_def hexdigit_def)

lemma hex4_low: "c < 32 \<Longrightarrow> hex4 48 48 (hexdigit (c div 16)) (hexdigit (c mod 16)) = Some c"
proof -
  assume c: "c < 32"
  then have "c div 16 < 16" "c mod 16 < 16" by simp_all
  then have "hexval (hexdigit (c div 16)) = Some (c div 16)"
    "hexval (hexdigit (c mod 16)) = Some (c mod 16)"
    by (simp_all add: hexval_hexdigit)
  moreover have "hexval 48 = Some 0" by (simp add: hexval_def)
  ultimately show ?thesis by (simp add: hex4_def)
qed

lemma string_body_escape_char:
  assumes "string_body x = Some (s, rest)"
  shows "string_body (escape_char c @ x) = Some (c # s, rest)"
proof -
  consider (quote) "c = 34" | (backslash) "c = 92" | (nl) "c = 10" | (cr) "c = 13"
    | (tab) "c = 9" | (bs) "c = 8" | (ff) "c = 12"
    | (ctl) "c < 32" "c \<noteq> 10" "c \<noteq> 13" "c \<noteq> 9" "c \<noteq> 8" "c \<noteq> 12"
    | (plain) "32 \<le> c" "c \<noteq> 34" "c \<noteq> 92"
    by linarith
  then show ?thesis
  proof cases
    case ctl
    then have e: "escape_char c = [92, 117, 48, 48, hexdigit (c div 16), hexdigit (c mod 16)]"
      by (simp add: escape_char_def)
    from ctl(1) have "hex4 48 48 (hexdigit (c div 16)) (hexdigit (c mod 16)) = Some c"
      by (rule hex4_low)
    with assms show ?thesis by (simp add: e)
  next
    case plain
    with assms show ?thesis by (simp add: escape_char_def)
  qed (use assms in \<open>simp_all add: escape_char_def unescape_char_def\<close>)
qed

lemma string_body_escaped:
  "string_body (concat (map escape_char s) @ 34 # rest) = Some (s, rest)"
  by (induction s) (simp_all add: string_body_escape_char)

lemma string_lit_encode_str: "string_lit (encode_str s @ rest) = Some (s, rest)"
  using string_body_escaped [of s rest] by (simp add: string_lit_def encode_str_def)

lemma skip_ws_simps:
  "skip_ws (34 # s) = 34 # s" "skip_ws (58 # s) = 58 # s" "skip_ws (44 # s) = 44 # s"
  "skip_ws (125 # s) = 125 # s" "skip_ws (123 # s) = 123 # s" "skip_ws (32 # s) = skip_ws s"
  "skip_ws [] = []"
  by (simp_all add: skip_ws_def json_ws_def)

lemma skip_ws_encode_str: "skip_ws (encode_str s @ rest) = encode_str s @ rest"
  by (simp add: encode_str_def skip_ws_simps)

lemma members_skip_blank: "members (32 # s) = members s"
  by (subst members.simps, subst (2) members.simps) (simp add: skip_ws_simps del: members.simps)

lemma members_last:
  "members (encode_member (k, v) @ 125 # rest) = Some ([(k, v)], 125 # rest)"
proof -
  have "encode_member (k, v) @ 125 # rest = encode_str k @ 58 # 32 # encode_str v @ 125 # rest"
    by (simp add: encode_member_def)
  then show ?thesis
    by (subst members.simps)
      (simp add: skip_ws_encode_str string_lit_encode_str skip_ws_simps del: members.simps)
qed

lemma members_more:
  assumes "members x = Some (ms, rest)"
  shows "members (encode_member (k, v) @ 44 # 32 # x) = Some ((k, v) # ms, rest)"
proof -
  have "encode_member (k, v) @ 44 # 32 # x = encode_str k @ 58 # 32 # encode_str v @ 44 # 32 # x"
    by (simp add: encode_member_def)
  then show ?thesis
    using assms
    by (subst members.simps)
      (simp add: skip_ws_encode_str string_lit_encode_str skip_ws_simps members_skip_blank
        del: members.simps)
qed

lemma members_joined:
  "members (join [44, 32] (map encode_member (m # ms)) @ 125 # rest) = Some (m # ms, 125 # rest)"
proof (induction ms arbitrary: m)
  case Nil
  show ?case using members_last [of "fst m" "snd m" rest] by (simp del: members.simps)
next
  case (Cons m' ms)
  have "members (encode_member (fst m, snd m) @ 44 # 32 #
          (join [44, 32] (map encode_member (m' # ms)) @ 125 # rest))
        = Some ((fst m, snd m) # m' # ms, 125 # rest)"
    using Cons.IH [of m'] by (rule members_more)
  then show ?case by (simp del: members.simps)
qed

lemma join_starts_quote:
  "\<exists>t. join [44, 32] (map encode_member (m # ms)) = 34 # t"
  by (cases ms) (simp_all add: encode_member_def encode_str_def)

lemma json_loads_dumps: "json_loads (json_dumps body) = Some body"
proof (cases body)
  case Nil
  then show ?thesis
    by (simp add: json_loads_def json_dumps_def skip_ws_simps del: members.simps)
next
  case (Cons m ms)
  define J where "J = join [44, 32] (map encode_member (m # ms))"
  from join_starts_quote [of m ms] obtain t where t: "J = 34 # t"
    unfolding J_def by blast
  have j: "json_dumps (m # ms) = 123 # J @ [125]"
    unfolding J_def by (simp add: json_dumps_def)
  have mj: "members (J @ [125]) = Some (m # ms, [125])"
    unfolding J_def by (rule members_joined)
  have s: "skip_ws (J @ [125]) = 34 # t @ [125]"
    by (simp add: t skip_ws_simps)
  have "json_loads (123 # J @ [125]) = Some (m # ms)"
    by (simp add: json_loads_def skip_ws_simps s mj del: members.simps)
  with j Cons show ?thesis by simp
qed

lemma filter_quoted_ascii:
  "filter (\<lambda>c. 128 \<le> c) (quoted (ascii ''reply'')) = []"
  "filter (\<lambda>c. 128 \<le> c) (quoted (ascii ''emoji'')) = []"
  "filter (\<lambda>c. 128 \<le> c) (ascii ''{'') = []"
  "filter (\<lambda>c. 128 \<le> c) (ascii ''}'') = []"
  "filter (\<lambda>c. 128 \<le> c) (ascii '': '') = []"
  "filter (\<lambda>c. 128 \<le> c) (ascii '', '') = []"
  by (simp_all add: quoted_def ascii_def)


section \<open>The body of send\<close>

text \<open>
  Claim C8. The body of \<open>send\<close> is the mapping \<open>{"reply": reply}\<close>, to which the key
  \<open>emoji\<close> is added exactly when an emoji is given and is not empty. The request carries
  its JSON text: the two fields in this order, each string between double quotes, with the
  quote and the backslash escaped by a backslash, the control characters below U+0020
  written \<open>\b\<close>, \<open>\f\<close>, \<open>\n\<close>, \<open>\r\<close>, \<open>\t\<close> or \<open>\u00XX\<close>, and every other code point written
  as itself. This text is JSON: every encoded string reads back as the string, and the
  whole text reads back as the body, for every reply and emoji. No code point from U+0080
  on is ever escaped: the code points from U+0080 on of the JSON text are those of the
  reply followed by those of the emoji. \<open>send("hello", emoji=U+1F44D)\<close> gives
  \<open>{"reply": "hello", "emoji": "<U+1F44D>"}\<close>.
\<close>

theorem send_body_serialized:
  "send_body reply emoji =
     (case emoji of
        None \<Rightarrow> [(ascii ''reply'', reply)]
      | Some e \<Rightarrow> if e \<noteq> [] then [(ascii ''reply'', reply), (ascii ''emoji'', e)]
                  else [(ascii ''reply'', reply)])
   \<and> (ascii ''emoji'' \<in> fst ` set (send_body reply emoji) \<longleftrightarrow> (\<exists>e. emoji = Some e \<and> e \<noteq> []))
   \<and> req_data (send_request ch reply emoji) = Some (json_dumps (send_body reply emoji))
   \<and> json_dumps (send_body reply emoji) =
        ascii ''{'' @ quoted (ascii ''reply'') @ ascii '': '' @ encode_str reply
          @ (case emoji of
               None \<Rightarrow> []
             | Some e \<Rightarrow> if e \<noteq> []
                         then ascii '', '' @ quoted (ascii ''emoji'') @ ascii '': '' @ encode_str e
                         else [])
          @ ascii ''}''
   \<and> encode_str s = quoted (concat (map escape_char s))
   \<and> escape_char 34 = [92, 34]
   \<and> escape_char 92 = [92, 92]
   \<and> escape_char 8 = [92, 98]
   \<and> escape_char 12 = [92, 102]
   \<and> escape_char 10 = [92, 110]
   \<and> escape_char 13 = [92, 114]
   \<and> escape_char 9 = [92, 116]
   \<and> (c < 32 \<and> c \<noteq> 8 \<and> c \<noteq> 9 \<and> c \<noteq> 10 \<and> c \<noteq> 12 \<and> c \<noteq> 13
        \<longrightarrow> escape_char c = [92, 117, 48, 48, ascii ''0123456789abcdef'' ! (c div 16),
                               ascii ''0123456789abcdef'' ! (c mod 16)])
   \<and> (32 \<le> c \<and> c \<noteq> 34 \<and> c \<noteq> 92 \<longrightarrow> escape_char c = [c])
   \<and> ((\<forall>c\<in>set s. 32 \<le> c \<and> c \<noteq> 34 \<and> c \<noteq> 92) \<longrightarrow> encode_str s = quoted s)
   \<and> string_lit (encode_str s) = Some (s, [])
   \<and> json_loads (json_dumps (send_body reply emoji)) = Some (send_body reply emoji)
   \<and> filter (\<lambda>c. 128 \<le> c) (json_dumps (send_body reply emoji))
        = filter (\<lambda>c. 128 \<le> c) (reply @ or_empty emoji)
   \<and> json_dumps (send_body (ascii ''hello'') (Some [128077])) =
        ascii ''{'' @ quoted (ascii ''reply'') @ ascii '': '' @ quoted (ascii ''hello'')
          @ ascii '', '' @ quoted (ascii ''emoji'') @ ascii '': '' @ quoted [128077] @ ascii ''}''"
proof -
  have ne: "ascii ''reply'' \<noteq> ascii ''emoji''" by (simp add: ascii_def)
  have b: "send_body reply emoji =
     (case emoji of
        None \<Rightarrow> [(ascii ''reply'', reply)]
      | Some e \<Rightarrow> if e \<noteq> [] then [(ascii ''reply'', reply), (ascii ''emoji'', e)]
                  else [(ascii ''reply'', reply)])"
    by (rule send_body_eq)
  have k: "ascii ''emoji'' \<in> fst ` set (send_body reply emoji) \<longleftrightarrow> (\<exists>e. emoji = Some e \<and> e \<noteq> [])"
    using ne by (auto simp: send_body_eq split: option.split)
  have d: "req_data (send_request ch reply emoji) = Some (json_dumps (send_body reply emoji))"
    by (simp add: send_request_def)
  have j: "json_dumps (send_body reply emoji) =
        ascii ''{'' @ quoted (ascii ''reply'') @ ascii '': '' @ encode_str reply
          @ (case emoji of
               None \<Rightarrow> []
             | Some e \<Rightarrow> if e \<noteq> []
                         then ascii '', '' @ quoted (ascii ''emoji'') @ ascii '': '' @ encode_str e
                         else [])
          @ ascii ''}''"
    by (rule json_dumps_send_body)
  have q: "encode_str s = quoted (concat (map escape_char s))"
    by (simp add: encode_str_def quoted_def)
  have e1: "escape_char 34 = [92, 34]" and e2: "escape_char 92 = [92, 92]"
    and e3: "escape_char 8 = [92, 98]" and e4: "escape_char 12 = [92, 102]"
    and e5: "escape_char 10 = [92, 110]" and e6: "escape_char 13 = [92, 114]"
    and e7: "escape_char 9 = [92, 116]"
    by (simp_all add: escape_char_def)
  have e8: "c < 32 \<and> c \<noteq> 8 \<and> c \<noteq> 9 \<and> c \<noteq> 10 \<and> c \<noteq> 12 \<and> c \<noteq> 13
        \<longrightarrow> escape_char c = [92, 117, 48, 48, ascii ''0123456789abcdef'' ! (c div 16),
                               ascii ''0123456789abcdef'' ! (c mod 16)]"
  proof
    assume a: "c < 32 \<and> c \<noteq> 8 \<and> c \<noteq> 9 \<and> c \<noteq> 10 \<and> c \<noteq> 12 \<and> c \<noteq> 13"
    then have "c < 32" by simp
    then have "c div 16 < 16" "c mod 16 < 16" by simp_all
    then have "hexdigit (c div 16) = ascii ''0123456789abcdef'' ! (c div 16)"
      "hexdigit (c mod 16) = ascii ''0123456789abcdef'' ! (c mod 16)"
      by (simp_all add: hexdigit_table)
    with a show "escape_char c = [92, 117, 48, 48, ascii ''0123456789abcdef'' ! (c div 16),
                               ascii ''0123456789abcdef'' ! (c mod 16)]"
      by (simp add: escape_char_def)
  qed
  have e9: "32 \<le> c \<and> c \<noteq> 34 \<and> c \<noteq> 92 \<longrightarrow> escape_char c = [c]"
    by (simp add: escape_char_plain)
  have p: "(\<forall>c\<in>set s. 32 \<le> c \<and> c \<noteq> 34 \<and> c \<noteq> 92) \<longrightarrow> encode_str s = quoted s"
    by (simp add: encode_str_plain)
  have l: "string_lit (encode_str s) = Some (s, [])"
    using string_lit_encode_str [of s "[]"] by simp
  have r: "json_loads (json_dumps (send_body reply emoji)) = Some (send_body reply emoji)"
    by (rule json_loads_dumps)
  have f: "filter (\<lambda>c. 128 \<le> c) (json_dumps (send_body reply emoji))
        = filter (\<lambda>c. 128 \<le> c) (reply @ or_empty emoji)"
    by (simp add: json_dumps_send_body filter_quoted_ascii filter_encode_str or_empty_def
        split: option.split)
  have h: "encode_str (ascii ''hello'') = quoted (ascii ''hello'')"
    by (rule encode_str_plain) (simp add: ascii_def)
  have t: "encode_str [128077] = quoted [128077]"
    by (rule encode_str_plain) simp
  have x: "json_dumps (send_body (ascii ''hello'') (Some [128077])) =
        ascii ''{'' @ quoted (ascii ''reply'') @ ascii '': '' @ quoted (ascii ''hello'')
          @ ascii '', '' @ quoted (ascii ''emoji'') @ ascii '': '' @ quoted [128077] @ ascii ''}''"
    by (simp add: json_dumps_send_body h t)
  show ?thesis
    by (intro conjI) (rule b k d j q e1 e2 e3 e4 e5 e6 e7 e8 e9 p l r f x)+
qed

text \<open>
  C8 at an emoji of two code points (U+1F44D, U+1F3FB), at the body of
  \<open>send("hello", emoji=U+1F44D)\<close> code point by code point, at an empty emoji, and at the
  reply \<open>a"b\<close> followed by a backslash, a line feed and U+0002, whose JSON text is
  \<open>{"reply": "a\"b\\\n\u0002"}\<close> and reads back as the body.
\<close>

theorem send_body_serialized_witness:
  "encode_str [128077, 127995] = [34, 128077, 127995, 34]
   \<and> json_dumps (send_body (ascii ''hello'') (Some [128077])) =
        [123, 34, 114, 101, 112, 108, 121, 34, 58, 32, 34, 104, 101, 108, 108, 111, 34, 44, 32,
         34, 101, 109, 111, 106, 105, 34, 58, 32, 34, 128077, 34, 125]
   \<and> json_dumps (send_body (ascii ''hello'') (Some [])) =
        [123, 34, 114, 101, 112, 108, 121, 34, 58, 32, 34, 104, 101, 108, 108, 111, 34, 125]
   \<and> escape_char 2 = [92, 117, 48, 48, 48, 50]
   \<and> json_dumps (send_body [97, 34, 98, 92, 10, 2] None) =
        [123, 34, 114, 101, 112, 108, 121, 34, 58, 32,
         34, 97, 92, 34, 98, 92, 92, 92, 110, 92, 117, 48, 48, 48, 50, 34, 125]
   \<and> json_loads [123, 34, 114, 101, 112, 108, 121, 34, 58, 32,
         34, 97, 92, 34, 98, 92, 92, 92, 110, 92, 117, 48, 48, 48, 50, 34, 125]
       = Some [(ascii ''reply'', [97, 34, 98, 92, 10, 2])]"
proof -
  let ?ch = "\<lparr>config = \<lparr>ip = [], token = None, wait_sec = 30, timeout_sec = 35\<rparr>, session = ()\<rparr>"
  let ?x = "[97, 34, 98, 92, 10, 2::nat]"
  have h: "\<forall>c\<in>set [128077, 127995]. 32 \<le> c \<and> c \<noteq> 34 \<and> c \<noteq> (92::nat)" by simp
  have e: "encode_str (ascii ''hello'') = [34, 104, 101, 108, 108, 111, 34]"
    by (simp add: encode_str_def escape_char_def ascii_def)
  from h send_body_serialized [of _ _ _ "[128077, 127995]"]
  have 1: "encode_str [128077, 127995] = quoted [128077, 127995]" by blast
  have 2: "json_dumps (send_body (ascii ''hello'') (Some [128077])) =
        ascii ''{'' @ quoted (ascii ''reply'') @ ascii '': '' @ quoted (ascii ''hello'')
          @ ascii '', '' @ quoted (ascii ''emoji'') @ ascii '': '' @ quoted [128077] @ ascii ''}''"
    using send_body_serialized [of "ascii ''hello''" "Some [128077]"] by blast
  have "json_dumps (send_body (ascii ''hello'') (Some [])) =
        ascii ''{'' @ quoted (ascii ''reply'') @ ascii '': '' @ encode_str (ascii ''hello'')
          @ (case Some [] of
               None \<Rightarrow> []
             | Some e \<Rightarrow> if e \<noteq> []
                         then ascii '', '' @ quoted (ascii ''emoji'') @ ascii '': '' @ encode_str e
                         else [])
          @ ascii ''}''"
    using send_body_serialized [of "ascii ''hello''" "Some []"] by blast
  then have 3: "json_dumps (send_body (ascii ''hello'') (Some [])) =
        ascii ''{'' @ quoted (ascii ''reply'') @ ascii '': '' @ encode_str (ascii ''hello'') @ ascii ''}''"
    by simp
  have c1: "(2::nat) < 32 \<and> (2::nat) \<noteq> 8 \<and> (2::nat) \<noteq> 9 \<and> (2::nat) \<noteq> 10
              \<and> (2::nat) \<noteq> 12 \<and> (2::nat) \<noteq> 13"
    by simp
  from c1 send_body_serialized [of ?x None ?ch "[]" 2]
  have "escape_char 2 = [92, 117, 48, 48, ascii ''0123456789abcdef'' ! (2 div 16),
                               ascii ''0123456789abcdef'' ! (2 mod 16)]"
    by blast
  then have 4: "escape_char 2 = [92, 117, 48, 48, 48, 50]" by (simp add: ascii_def)
  have ex: "encode_str ?x = [34, 97, 92, 34, 98, 92, 92, 92, 110, 92, 117, 48, 48, 48, 50, 34]"
    by (simp add: encode_str_def escape_char_def hexdigit_def)
  have "json_dumps (send_body ?x None) =
        ascii ''{'' @ quoted (ascii ''reply'') @ ascii '': '' @ encode_str ?x
          @ (case None of
               None \<Rightarrow> []
             | Some e \<Rightarrow> if e \<noteq> []
                         then ascii '', '' @ quoted (ascii ''emoji'') @ ascii '': '' @ encode_str e
                         else [])
          @ ascii ''}''"
    using send_body_serialized [of ?x None] by blast
  then have 5: "json_dumps (send_body ?x None) =
        [123, 34, 114, 101, 112, 108, 121, 34, 58, 32,
         34, 97, 92, 34, 98, 92, 92, 92, 110, 92, 117, 48, 48, 48, 50, 34, 125]"
    by (simp add: ex quoted_def) (simp add: ascii_def)
  have r: "json_loads (json_dumps (send_body ?x None)) = Some (send_body ?x None)"
    using send_body_serialized [of ?x None] by blast
  have sb: "send_body ?x None = [(ascii ''reply'', ?x)]"
    by (simp add: send_body_def)
  from r have "json_loads [123, 34, 114, 101, 112, 108, 121, 34, 58, 32,
         34, 97, 92, 34, 98, 92, 92, 92, 110, 92, 117, 48, 48, 48, 50, 34, 125]
       = Some (send_body ?x None)"
    unfolding 5 .
  then have 6: "json_loads [123, 34, 114, 101, 112, 108, 121, 34, 58, 32,
         34, 97, 92, 34, 98, 92, 92, 92, 110, 92, 117, 48, 48, 48, 50, 34, 125]
       = Some [(ascii ''reply'', ?x)]"
    unfolding sb .
  from 1 2 3 4 5 6 show ?thesis
    by (simp add: e quoted_def) (simp add: ascii_def)
qed


end
